theory Spec2Isabelle
  imports Complex_Main
begin

section \<open>Configuration\<close>

text \<open>
  The \<open>CONFIG\<close> object of the scraper. Times are milliseconds since the epoch
  (\<open>Date.now()\<close>) and are modelled as unbounded integers; counts are natural numbers.
\<close>

definition BATCH_SIZE :: nat where
  "BATCH_SIZE = 100"

definition CONCURRENCY :: nat where
  "CONCURRENCY = 10"

definition RETRY_ATTEMPTS :: nat where
  "RETRY_ATTEMPTS = 3"

definition RETRY_DELAY :: int where
  "RETRY_DELAY = 2000"

definition CACHE_DURATION :: int where
  "CACHE_DURATION = 24 * 60 * 60 * 1000"

definition RATE_LIMIT_DELAY :: int where
  "RATE_LIMIT_DELAY = 200"

section \<open>Cache\<close>

text \<open>
  \<open>Cache.cache\<close> is a dictionary from key strings to items \<open>{ data, timestamp }\<close>.
  \<open>Cache.get\<close> reads \<open>Date.now()\<close>, which is the first argument here. The values the
  program stores are metric objects, which are always truthy, so the test \<open>item &&\<close>
  of the source is the test for presence of the key.
\<close>

record 'v cache_item =
  data :: 'v
  timestamp :: int

type_synonym 'v cache = "string \<rightharpoonup> 'v cache_item"

definition Cache_get :: "int \<Rightarrow> 'v cache \<Rightarrow> string \<Rightarrow> 'v option" where
  "Cache_get now c key =
     (case c key of
        None \<Rightarrow> None
      | Some item \<Rightarrow> if now - timestamp item < CACHE_DURATION then Some (data item) else None)"

definition Cache_set :: "int \<Rightarrow> 'v cache \<Rightarrow> string \<Rightarrow> 'v \<Rightarrow> 'v cache" where
  "Cache_set now c key v = c(key \<mapsto> \<lparr>data = v, timestamp = now\<rparr>)"

section \<open>Data model\<close>

text \<open>
  An \<open>Error\<close> object, with its \<open>message\<close>. A rejected promise and a thrown
  exception carry one.
\<close>

datatype error = Error (message: string)

text \<open>
  The shapes of the metric objects. Counts are JSON numbers and are modelled as
  integers. Names that HOL already uses carry a prime (\<open>total'\<close>, \<open>id'\<close>,
  \<open>data'\<close>, \<open>timestamp'\<close>).
\<close>

record leetcode_metrics =
  total' :: int
  easy :: int
  medium :: int
  hard :: int

record github_metrics =
  repos :: int
  mergedPRs :: int

record solved_metrics =
  solved :: int

record user_info =
  profile_name :: string
  profileFound :: bool

record skillrack_metrics = solved_metrics +
  userInfo :: "user_info option"

text \<open>
  A student of \<open>students_mock.json\<close>. A handle is a string or is missing; the
  SkillRack handle is a string (the old format) or an object with the fields
  \<open>username\<close>, \<open>id\<close> and \<open>key\<close>, each of which may be missing. The \<open>id\<close> and the
  \<open>key\<close> stand as the text the profile URL shows them with.
\<close>

datatype skillrack_handle =
    SkillrackString string
  | SkillrackObject "string option" "string option" "string option"

record handles =
  leetcode_handle :: "string option"
  github_handle :: "string option"
  codeforces_handle :: "string option"
  atcoder_handle :: "string option"
  skillrack_handle :: "skillrack_handle option"

record student =
  id' :: int
  name :: string
  handles :: "handles option"

text \<open>
  The record \<open>processStudent\<close> returns: the fields of the student, then \<open>data\<close>,
  \<open>processingTime\<close>, \<open>timestamp\<close> (kept as the clock value the ISO string is printed
  from) and, on the \<open>catch\<close> path only, \<open>error\<close>.
\<close>

record platform_data =
  leetcode :: leetcode_metrics
  github :: github_metrics
  codeforces :: solved_metrics
  atcoder :: solved_metrics
  skillrack :: skillrack_metrics
  totalCP :: int

record AggregateResult = student +
  data' :: platform_data
  processingTime :: int
  timestamp' :: int
  error :: "string option"

text \<open>
  JavaScript truthiness of a string that may be missing: \<open>undefined\<close> and the empty
  string are falsy. \<open>x || 0\<close> on a number that may be missing.
\<close>

fun truthy :: "string option \<Rightarrow> bool" where
  "truthy None = False"
| "truthy (Some s) = (s \<noteq> [])"

fun or_zero :: "int option \<Rightarrow> int" where
  "or_zero None = 0"
| "or_zero (Some n) = (if n = 0 then 0 else n)"

section \<open>The world of the scraper\<close>

text \<open>
  The requests the program sends with axios, each with the handle or the URL it is
  built from, and the effects a run leaves behind: a request, a timer
  (\<open>setTimeout\<close>) the caller awaited, with its duration in milliseconds, or a write
  of the snapshot file.
\<close>

datatype request =
    LeetcodeGraphql string
  | GithubUsers string
  | GithubSearchIssues string
  | CodeforcesUserStatus string
  | AtcoderAcRank string
  | SkillrackResume string

datatype event = Request request | Timer int | WriteResults

text \<open>The six \<open>RateLimiter\<close> instances the module creates.\<close>

datatype limiter =
    rateLimiter
  | githubUserLimiter
  | githubSearchLimiter
  | leetcodeLimiter
  | codeforcesLimiter
  | skillrackLimiter

record RateLimiter =
  delay :: int
  lastRequest :: int

text \<open>
  The mutable state of the module and of its surroundings: the clock \<open>Date.now()\<close>,
  the limiters, the cache, the snapshot file \<open>results.json\<close> and the trace of
  effects. The dictionary of the one \<open>Cache\<close> object holds values of three shapes;
  it is kept as one typed table per adapter, each addressed by the key strings the
  code builds (\<open>leetcode_<handle>\<close>, \<open>github_<handle>\<close>, \<open>codeforces_<handle>\<close>,
  \<open>atcoder_<handle>\<close>), whose prefixes keep the four key spaces apart. Console output
  is left out.
\<close>

record world =
  clock :: int
  limiters :: "limiter \<Rightarrow> RateLimiter"
  leetcode_cache :: "leetcode_metrics cache"
  github_cache :: "github_metrics cache"
  codeforces_cache :: "solved_metrics cache"
  atcoder_cache :: "solved_metrics cache"
  results_json :: "AggregateResult list option"
  trace :: "event list"

definition new_RateLimiter :: "int \<Rightarrow> RateLimiter" where
  "new_RateLimiter d = \<lparr>delay = d, lastRequest = 0\<rparr>"

text \<open>The limiters as the module creates them, each with its interval.\<close>

fun module_limiters :: "limiter \<Rightarrow> RateLimiter" where
  "module_limiters rateLimiter = new_RateLimiter 200"
| "module_limiters githubUserLimiter = new_RateLimiter 1200"
| "module_limiters githubSearchLimiter = new_RateLimiter 3000"
| "module_limiters leetcodeLimiter = new_RateLimiter 500"
| "module_limiters codeforcesLimiter = new_RateLimiter 1000"
| "module_limiters skillrackLimiter = new_RateLimiter 800"

text \<open>The module just loaded at time \<open>now\<close>, with no cache file.\<close>

definition fresh_world :: "int \<Rightarrow> world" where
  "fresh_world now =
     \<lparr>clock = now, limiters = module_limiters,
      leetcode_cache = Map.empty, github_cache = Map.empty,
      codeforces_cache = Map.empty, atcoder_cache = Map.empty,
      results_json = None, trace = []\<rparr>"

text \<open>
  \<open>await new Promise(resolve => setTimeout(resolve, ms))\<close>: the caller resumes
  \<open>ms\<close> milliseconds later.
\<close>

definition sleep :: "int \<Rightarrow> world \<Rightarrow> world" where
  "sleep ms w = w\<lparr>clock := clock w + ms, trace := trace w @ [Timer ms]\<rparr>"

text \<open>
  What lies outside the program. Each remote endpoint answers the \<open>n\<close>-th effect of
  the run (\<open>n\<close> is the length of the trace when the request is sent, so that a retry
  may be answered differently) for a handle or a URL, with the part of the body the
  code reads, or fails: \<open>Inl\<close> stands for the awaited axios call rejecting (timeout,
  connection error, status outside 2xx) and for the handler throwing on a body of
  another shape, which reach the same \<open>catch\<close>.
  \<^item> \<open>leetcode_graphql\<close>: the array \<open>data.matchedUser.submitStatsGlobal.acSubmissionNum\<close>
    as (difficulty, count) pairs, \<open>None\<close> when a link of that path is absent;
  \<^item> \<open>github_users\<close>: \<open>public_repos\<close>; \<open>github_search_issues\<close>: \<open>total_count\<close>;
  \<^item> \<open>codeforces_user_status\<close>: \<open>status\<close> and the submissions of \<open>result\<close>;
  \<^item> \<open>atcoder_ac_rank\<close>: \<open>count\<close>;
  \<^item> \<open>skillrack_resume\<close>: the HTML of the profile page.
  \<open>latency\<close> is the time a request takes, \<open>writeJson_error\<close> the failure of a write
  of \<open>results.json\<close>, if it fails. \<open>extract_profile\<close> stands for the regular-expression
  heuristics of \<open>scrapeSkillRack\<close> (name and solved count read off a page that passed
  validation, for a username), which are taken as a parameter.
\<close>

record submission =
  verdict :: string
  contestId :: string
  problem_index :: string

record codeforces_body =
  cf_status :: string
  cf_result :: "submission list"

record env =
  leetcode_graphql :: "nat \<Rightarrow> string \<Rightarrow> error + (string \<times> int) list option"
  github_users :: "nat \<Rightarrow> string \<Rightarrow> error + int option"
  github_search_issues :: "nat \<Rightarrow> string \<Rightarrow> error + int option"
  codeforces_user_status :: "nat \<Rightarrow> string \<Rightarrow> error + codeforces_body"
  atcoder_ac_rank :: "nat \<Rightarrow> string \<Rightarrow> error + int option"
  skillrack_resume :: "nat \<Rightarrow> string \<Rightarrow> error + string"
  latency :: "nat \<Rightarrow> nat"
  writeJson_error :: "nat \<Rightarrow> error option"
  extract_profile :: "string \<Rightarrow> string \<Rightarrow> skillrack_metrics"

text \<open>
  An awaited axios call: the request is sent and logged, time passes, and the answer
  of the endpoint \<open>respond\<close> comes back.
\<close>

definition axios :: "env \<Rightarrow> request \<Rightarrow> (nat \<Rightarrow> 'b) \<Rightarrow> world \<Rightarrow> 'b \<times> world" where
  "axios net r respond w =
     (respond (length (trace w)),
      w\<lparr>clock := clock w + int (latency net (length (trace w))), trace := trace w @ [Request r]\<rparr>)"

section \<open>retryRequest\<close>

text \<open>
  The operation \<open>fn\<close> is a computation on the world that either returns a value
  (\<open>Inr\<close>) or throws (\<open>Inl\<close>). The loop counter \<open>i\<close> of the source is the second
  argument of \<open>retryRequest_from\<close>. When \<open>attempts\<close> is 0 the loop body never runs
  and the promise resolves to \<open>undefined\<close>.
\<close>

datatype 'a retry_result = Returned 'a | Thrown error | ReturnedUndefined

function retryRequest_from ::
  "(world \<Rightarrow> (error + 'a) \<times> world) \<Rightarrow> nat \<Rightarrow> nat \<Rightarrow> world \<Rightarrow> 'a retry_result \<times> world" where
  "retryRequest_from fn i attempts w =
     (if i < attempts then
        (case fn w of
           (Inr v, w') \<Rightarrow> (Returned v, w')
         | (Inl e, w') \<Rightarrow>
             if i = attempts - 1 then (Thrown e, w')
             else retryRequest_from fn (i + 1) attempts (sleep (RETRY_DELAY * 2 ^ i) w'))
      else (ReturnedUndefined, w))"
  by pat_completeness auto
termination
  by (relation "measure (\<lambda>(fn, i, attempts, w). attempts - i)") auto

declare retryRequest_from.simps [simp del]

definition retryRequest ::
  "(world \<Rightarrow> (error + 'a) \<times> world) \<Rightarrow> nat \<Rightarrow> world \<Rightarrow> 'a retry_result \<times> world" where
  "retryRequest fn attempts w = retryRequest_from fn 0 attempts w"

text \<open>
  The call \<open>retryRequest(fn)\<close> of the adapters, with the default
  \<open>attempts = CONFIG.RETRY_ATTEMPTS\<close>, as the promise it settles: fulfilled
  (\<open>Inr\<close>) or rejected (\<open>Inl\<close>). With three attempts the loop never falls through, so
  the last case is never taken (lemma \<open>retryRequest_default_attempts\<close> below).
\<close>

definition retryRequest_default ::
  "(world \<Rightarrow> (error + 'a) \<times> world) \<Rightarrow> world \<Rightarrow> (error + 'a) \<times> world" where
  "retryRequest_default fn w =
     (case retryRequest fn RETRY_ATTEMPTS w of
        (Returned v, w') \<Rightarrow> (Inr v, w')
      | (Thrown e, w') \<Rightarrow> (Inl e, w')
      | (ReturnedUndefined, w') \<Rightarrow> (Inl (Error []), w'))"

section \<open>RateLimiter\<close>

text \<open>
  \<open>wait()\<close> has one suspension point. \<open>wait_timer\<close> is the part before it: it
  reads the clock and the last dispatch and gives the duration of the timer to await,
  if there is one. \<open>wait_record\<close> is the part after it: it stores the clock as read
  then.
\<close>

definition wait_timer :: "int \<Rightarrow> RateLimiter \<Rightarrow> int option" where
  "wait_timer now l =
     (let timeSinceLastRequest = now - lastRequest l
      in if timeSinceLastRequest < delay l then Some (delay l - timeSinceLastRequest) else None)"

definition wait_record :: "int \<Rightarrow> RateLimiter \<Rightarrow> RateLimiter" where
  "wait_record now l = l\<lparr>lastRequest := now\<rparr>"

text \<open>One call of \<open>wait()\<close> on the limiter \<open>n\<close>, run with nothing else in between.\<close>

definition RateLimiter_wait :: "limiter \<Rightarrow> world \<Rightarrow> world" where
  "RateLimiter_wait n w =
     (let w' = (case wait_timer (clock w) (limiters w n) of
                  Some ms \<Rightarrow> sleep ms w
                | None \<Rightarrow> w)
      in w'\<lparr>limiters := (limiters w')(n := wait_record (clock w') (limiters w' n))\<rparr>)"

section \<open>Platform adapters\<close>

text \<open>
  Each of the four API adapters is split as the source is: the callback handed to
  \<open>retryRequest\<close> (\<open>_fetch\<close>), and the adapter around it. \<open>count_of\<close> is
  \<open>data.find(item => item.difficulty === d)?.count || 0\<close>.
\<close>

definition count_of :: "string \<Rightarrow> (string \<times> int) list \<Rightarrow> int" where
  "count_of d items = or_zero (map_option snd (find (\<lambda>item. fst item = d) items))"

definition leetcode_fetch :: "env \<Rightarrow> string \<Rightarrow> world \<Rightarrow> (error + leetcode_metrics) \<times> world" where
  "leetcode_fetch net username w =
     (case axios net (LeetcodeGraphql username) (\<lambda>n. leetcode_graphql net n username) w of
        (Inl e, w') \<Rightarrow> (Inl e, w')
      | (Inr None, w') \<Rightarrow> (Inr \<lparr>total' = 0, easy = 0, medium = 0, hard = 0\<rparr>, w')
      | (Inr (Some items), w') \<Rightarrow>
          (let r = \<lparr>total' = count_of ''All'' items, easy = count_of ''Easy'' items,
                    medium = count_of ''Medium'' items, hard = count_of ''Hard'' items\<rparr>
           in (Inr r, w'\<lparr>leetcode_cache :=
                 Cache_set (clock w') (leetcode_cache w') (''leetcode_'' @ username) r\<rparr>)))"

definition Adapters_leetcode :: "env \<Rightarrow> string option \<Rightarrow> world \<Rightarrow> (error + leetcode_metrics) \<times> world" where
  "Adapters_leetcode net username w =
     (case username of
        None \<Rightarrow> (Inr \<lparr>total' = 0, easy = 0, medium = 0, hard = 0\<rparr>, w)
      | Some u \<Rightarrow>
          if u = [] then (Inr \<lparr>total' = 0, easy = 0, medium = 0, hard = 0\<rparr>, w)
          else (case Cache_get (clock w) (leetcode_cache w) (''leetcode_'' @ u) of
                  Some cached \<Rightarrow> (Inr cached, w)
                | None \<Rightarrow> retryRequest_default (leetcode_fetch net u) (RateLimiter_wait leetcodeLimiter w)))"

text \<open>
  GitHub: the user lookup, then the search for merged pull requests behind its own
  limiter. A failure of the search is caught and counts as 0 merged pull requests; a
  failure of the user lookup is logged and thrown again. The token of the environment,
  when there is one, only adds a header to both requests.
\<close>

definition github_fetch :: "env \<Rightarrow> string \<Rightarrow> world \<Rightarrow> (error + github_metrics) \<times> world" where
  "github_fetch net username w =
     (case axios net (GithubUsers username) (\<lambda>n. github_users net n username) w of
        (Inl e, w1) \<Rightarrow> (Inl e, w1)
      | (Inr public_repos, w1) \<Rightarrow>
          (case axios net (GithubSearchIssues username) (\<lambda>n. github_search_issues net n username)
                  (RateLimiter_wait githubSearchLimiter w1) of
             (prResponse, w2) \<Rightarrow>
               (let r = \<lparr>repos = or_zero public_repos,
                         mergedPRs = (case prResponse of
                                        Inl prError \<Rightarrow> 0
                                      | Inr total_count \<Rightarrow> or_zero total_count)\<rparr>
                in (Inr r, w2\<lparr>github_cache :=
                      Cache_set (clock w2) (github_cache w2) (''github_'' @ username) r\<rparr>))))"

definition Adapters_github :: "env \<Rightarrow> string option \<Rightarrow> world \<Rightarrow> (error + github_metrics) \<times> world" where
  "Adapters_github net username w =
     (case username of
        None \<Rightarrow> (Inr \<lparr>repos = 0, mergedPRs = 0\<rparr>, w)
      | Some u \<Rightarrow>
          if u = [] then (Inr \<lparr>repos = 0, mergedPRs = 0\<rparr>, w)
          else (case Cache_get (clock w) (github_cache w) (''github_'' @ u) of
                  Some cached \<Rightarrow> (Inr cached, w)
                | None \<Rightarrow> retryRequest_default (github_fetch net u) (RateLimiter_wait githubUserLimiter w)))"

text \<open>
  Codeforces: the distinct problems (\<open>contestId-index\<close>) among the submissions with
  verdict \<open>OK\<close>; the size of the JavaScript \<open>Set\<close> is the number of distinct keys.
\<close>

definition problem_key :: "submission \<Rightarrow> string" where
  "problem_key sub = contestId sub @ ''-'' @ problem_index sub"

definition codeforces_fetch :: "env \<Rightarrow> string \<Rightarrow> world \<Rightarrow> (error + solved_metrics) \<times> world" where
  "codeforces_fetch net username w =
     (case axios net (CodeforcesUserStatus username) (\<lambda>n. codeforces_user_status net n username) w of
        (Inl e, w') \<Rightarrow> (Inl e, w')
      | (Inr body, w') \<Rightarrow>
          if cf_status body \<noteq> ''OK'' then (Inr \<lparr>solved = 0\<rparr>, w')
          else (let solvedProblems =
                      remdups (map problem_key (filter (\<lambda>sub. verdict sub = ''OK'') (cf_result body)));
                    r = \<lparr>solved = int (length solvedProblems)\<rparr>
                in (Inr r, w'\<lparr>codeforces_cache :=
                      Cache_set (clock w') (codeforces_cache w') (''codeforces_'' @ username) r\<rparr>)))"

definition Adapters_codeforces :: "env \<Rightarrow> string option \<Rightarrow> world \<Rightarrow> (error + solved_metrics) \<times> world" where
  "Adapters_codeforces net username w =
     (case username of
        None \<Rightarrow> (Inr \<lparr>solved = 0\<rparr>, w)
      | Some u \<Rightarrow>
          if u = [] then (Inr \<lparr>solved = 0\<rparr>, w)
          else (case Cache_get (clock w) (codeforces_cache w) (''codeforces_'' @ u) of
                  Some cached \<Rightarrow> (Inr cached, w)
                | None \<Rightarrow> retryRequest_default (codeforces_fetch net u) (RateLimiter_wait codeforcesLimiter w)))"

definition atcoder_fetch :: "env \<Rightarrow> string \<Rightarrow> world \<Rightarrow> (error + solved_metrics) \<times> world" where
  "atcoder_fetch net username w =
     (case axios net (AtcoderAcRank username) (\<lambda>n. atcoder_ac_rank net n username) w of
        (Inl e, w') \<Rightarrow> (Inl e, w')
      | (Inr count, w') \<Rightarrow>
          (let r = \<lparr>solved = or_zero count\<rparr>
           in (Inr r, w'\<lparr>atcoder_cache :=
                 Cache_set (clock w') (atcoder_cache w') (''atcoder_'' @ username) r\<rparr>)))"

definition Adapters_atcoder :: "env \<Rightarrow> string option \<Rightarrow> world \<Rightarrow> (error + solved_metrics) \<times> world" where
  "Adapters_atcoder net username w =
     (case username of
        None \<Rightarrow> (Inr \<lparr>solved = 0\<rparr>, w)
      | Some u \<Rightarrow>
          if u = [] then (Inr \<lparr>solved = 0\<rparr>, w)
          else (case Cache_get (clock w) (atcoder_cache w) (''atcoder_'' @ u) of
                  Some cached \<Rightarrow> (Inr cached, w)
                | None \<Rightarrow> retryRequest_default (atcoder_fetch net u) (RateLimiter_wait rateLimiter w)))"

section \<open>SkillRack\<close>

text \<open>\<open>String.prototype.includes\<close>, on strings as lists of characters.\<close>

fun starts_with :: "string \<Rightarrow> string \<Rightarrow> bool" where
  "starts_with s [] = True"
| "starts_with [] (c # cs) = False"
| "starts_with (x # xs) (c # cs) = (x = c \<and> starts_with xs cs)"

fun string_includes :: "string \<Rightarrow> string \<Rightarrow> bool" where
  "string_includes [] sub = (sub = [])"
| "string_includes (x # xs) sub = (starts_with (x # xs) sub \<or> string_includes xs sub)"

text \<open>
  The validation of the page (\<open>!html || html.length < 1000 || ...\<close>).
\<close>

definition invalid_page :: "string \<Rightarrow> bool" where
  "invalid_page html =
     (html = [] \<or> length html < 1000 \<or> string_includes html ''Please login''
      \<or> string_includes html ''Login required'' \<or> string_includes html ''error''
      \<or> string_includes html ''Error'')"

text \<open>
  \<open>scrapeSkillRack(skillrackData, rateLimiter)\<close>. It catches every failure and so
  returns metrics in all cases. A bare string is username and id at once, with no key,
  and is looked up under the fallback URL.
\<close>

definition scrapeSkillRack ::
  "env \<Rightarrow> skillrack_handle option \<Rightarrow> limiter \<Rightarrow> world \<Rightarrow> skillrack_metrics \<times> world" where
  "scrapeSkillRack net skillrackData rl w =
     (case skillrackData of
        None \<Rightarrow> (\<lparr>solved = 0, userInfo = None\<rparr>, w)
      | Some h \<Rightarrow>
          if h = SkillrackString [] then (\<lparr>solved = 0, userInfo = None\<rparr>, w)
          else (case (case h of
                        SkillrackString s \<Rightarrow> (Some s, Some s, None)
                      | SkillrackObject u i k \<Rightarrow> (u, i, k)) of
                  (username, ident, key) \<Rightarrow>
                    if \<not> truthy username then (\<lparr>solved = 0, userInfo = None\<rparr>, w)
                    else (let profileUrl =
                                (if truthy ident \<and> truthy key
                                 then ''https://www.skillrack.com/faces/resume.xhtml?id='' @ the ident
                                        @ ''&key='' @ the key
                                 else ''https://www.skillrack.com/faces/resume.xhtml?id='' @ the username)
                          in case axios net (SkillrackResume profileUrl)
                                    (\<lambda>n. skillrack_resume net n profileUrl) (RateLimiter_wait rl w) of
                               (Inl e, w') \<Rightarrow> (\<lparr>solved = 0, userInfo = None\<rparr>, w')
                             | (Inr html, w') \<Rightarrow>
                                 if invalid_page html then (\<lparr>solved = 0, userInfo = None\<rparr>, w')
                                 else (extract_profile net html (the username), w'))))"

definition Adapters_skillrack ::
  "env \<Rightarrow> skillrack_handle option \<Rightarrow> world \<Rightarrow> (error + skillrack_metrics) \<times> world" where
  "Adapters_skillrack net skillrackData w =
     (case skillrackData of
        None \<Rightarrow> (Inr \<lparr>solved = 0, userInfo = None\<rparr>, w)
      | Some (SkillrackString s) \<Rightarrow> (Inr \<lparr>solved = 0, userInfo = None\<rparr>, w)
      | Some (SkillrackObject u ident key) \<Rightarrow>
          if \<not> truthy ident \<or> \<not> truthy key then (Inr \<lparr>solved = 0, userInfo = None\<rparr>, w)
          else (case scrapeSkillRack net skillrackData skillrackLimiter w of
                  (m, w') \<Rightarrow> (Inr m, w')))"

section \<open>processStudent\<close>

text \<open>
  \<open>processStudent\<close> looks the five adapters up in the exported object \<open>Adapters\<close>
  when it runs, so it is modelled over any value of that object. Calling an adapter
  either throws at once (\<open>Throws\<close>), or gives a promise that settles fulfilled
  (\<open>Inr\<close>) or rejected (\<open>Inl\<close>). The adapters of the module are \<open>async\<close> functions:
  calling one never throws, whatever happens inside becomes the state of its promise.
\<close>

datatype 'a invocation = Throws error | Settles "error + 'a"

record adapters =
  leetcode_adapter :: "string option \<Rightarrow> world \<Rightarrow> leetcode_metrics invocation \<times> world"
  github_adapter :: "string option \<Rightarrow> world \<Rightarrow> github_metrics invocation \<times> world"
  codeforces_adapter :: "string option \<Rightarrow> world \<Rightarrow> solved_metrics invocation \<times> world"
  atcoder_adapter :: "string option \<Rightarrow> world \<Rightarrow> solved_metrics invocation \<times> world"
  skillrack_adapter :: "skillrack_handle option \<Rightarrow> world \<Rightarrow> skillrack_metrics invocation \<times> world"

definition async :: "('h \<Rightarrow> world \<Rightarrow> (error + 'a) \<times> world) \<Rightarrow> 'h \<Rightarrow> world \<Rightarrow> 'a invocation \<times> world" where
  "async f h w = (case f h w of (r, w') \<Rightarrow> (Settles r, w'))"

definition Adapters :: "env \<Rightarrow> adapters" where
  "Adapters net =
     \<lparr>leetcode_adapter = async (Adapters_leetcode net),
      github_adapter = async (Adapters_github net),
      codeforces_adapter = async (Adapters_codeforces net),
      atcoder_adapter = async (Adapters_atcoder net),
      skillrack_adapter = async (Adapters_skillrack net)\<rparr>"

text \<open>
  The argument of \<open>Promise.allSettled\<close>: the five calls, made in the order of the
  array literal, each on \<open>student.handles?.<platform>\<close>. A call that throws ends the
  \<open>try\<close> block there. The five promises run concurrently in the source; here each
  runs to its end before the next call is made. The adapters of one student work on
  different limiters and different cache keys.
\<close>

type_synonym settled =
  "(error + leetcode_metrics) \<times> (error + github_metrics) \<times> (error + solved_metrics)
    \<times> (error + solved_metrics) \<times> (error + skillrack_metrics)"

definition allSettled :: "adapters \<Rightarrow> handles option \<Rightarrow> world \<Rightarrow> (error + settled) \<times> world" where
  "allSettled A h w =
     (case leetcode_adapter A (Option.bind h leetcode_handle) w of
        (Throws e, w1) \<Rightarrow> (Inl e, w1)
      | (Settles leetcodeData, w1) \<Rightarrow>
     (case github_adapter A (Option.bind h github_handle) w1 of
        (Throws e, w2) \<Rightarrow> (Inl e, w2)
      | (Settles githubData, w2) \<Rightarrow>
     (case codeforces_adapter A (Option.bind h codeforces_handle) w2 of
        (Throws e, w3) \<Rightarrow> (Inl e, w3)
      | (Settles codeforcesData, w3) \<Rightarrow>
     (case atcoder_adapter A (Option.bind h atcoder_handle) w3 of
        (Throws e, w4) \<Rightarrow> (Inl e, w4)
      | (Settles atcoderData, w4) \<Rightarrow>
     (case skillrack_adapter A (Option.bind h skillrack_handle) w4 of
        (Throws e, w5) \<Rightarrow> (Inl e, w5)
      | (Settles skillrackData, w5) \<Rightarrow>
          (Inr (leetcodeData, githubData, codeforcesData, atcoderData, skillrackData), w5))))))"

text \<open>\<open>x.status === 'fulfilled' ? x.value : d\<close>.\<close>

fun fulfilled_or :: "'a \<Rightarrow> error + 'a \<Rightarrow> 'a" where
  "fulfilled_or d (Inr v) = v"
| "fulfilled_or d (Inl e) = d"

definition processStudent :: "adapters \<Rightarrow> student \<Rightarrow> world \<Rightarrow> AggregateResult \<times> world" where
  "processStudent A student w =
     (let startTime = clock w in
      case allSettled A (handles student) w of
        (Inr (leetcodeData, githubData, codeforcesData, atcoderData, skillrackData), w') \<Rightarrow>
          (let lc = fulfilled_or \<lparr>total' = 0, easy = 0, medium = 0, hard = 0\<rparr> leetcodeData;
               gh = fulfilled_or \<lparr>repos = 0, mergedPRs = 0\<rparr> githubData;
               cf = fulfilled_or \<lparr>solved = 0\<rparr> codeforcesData;
               ac = fulfilled_or \<lparr>solved = 0\<rparr> atcoderData;
               sr = fulfilled_or \<lparr>solved = 0, userInfo = None\<rparr> skillrackData
           in (\<lparr>id' = id' student, name = name student, handles = handles student,
                data' = \<lparr>leetcode = lc, github = gh, codeforces = cf, atcoder = ac, skillrack = sr,
                          totalCP = total' lc + solved cf + solved ac + or_zero (Some (solved sr))\<rparr>,
                processingTime = clock w' - startTime,
                timestamp' = clock w',
                error = None\<rparr>, w'))
      | (Inl e, w') \<Rightarrow>
          (\<lparr>id' = id' student, name = name student, handles = handles student,
            data' = \<lparr>leetcode = \<lparr>total' = 0, easy = 0, medium = 0, hard = 0\<rparr>,
                      github = \<lparr>repos = 0, mergedPRs = 0\<rparr>,
                      codeforces = \<lparr>solved = 0\<rparr>,
                      atcoder = \<lparr>solved = 0\<rparr>,
                      skillrack = \<lparr>solved = 0, userInfo = None\<rparr>,
                      totalCP = 0\<rparr>,
            processingTime = clock w' - startTime,
            timestamp' = clock w',
            error = Some (message e)\<rparr>, w'))"

section \<open>processBatch and runScraper\<close>

text \<open>
  \<open>chunk.map(student => processStudent(student))\<close> under \<open>Promise.all\<close>: the results
  come back in the order of the chunk. The calls of one chunk run concurrently in the
  source; here they run one after the other.
\<close>

fun processChunk :: "adapters \<Rightarrow> student list \<Rightarrow> world \<Rightarrow> AggregateResult list \<times> world" where
  "processChunk A [] w = ([], w)"
| "processChunk A (student # chunk) w =
     (case processStudent A student w of
        (r, w1) \<Rightarrow> (case processChunk A chunk w1 of (rs, w2) \<Rightarrow> (r # rs, w2)))"

text \<open>The loop of \<open>processBatch\<close>; \<open>students.slice(i, i + n)\<close> is \<open>take n (drop i students)\<close>.\<close>

function processBatch_from ::
  "adapters \<Rightarrow> student list \<Rightarrow> nat \<Rightarrow> AggregateResult list \<Rightarrow> world \<Rightarrow> AggregateResult list \<times> world" where
  "processBatch_from A students i results w =
     (if i < length students then
        (case processChunk A (take CONCURRENCY (drop i students)) w of
           (chunkResults, w') \<Rightarrow>
             processBatch_from A students (i + CONCURRENCY) (results @ chunkResults) w')
      else (results, w))"
  by pat_completeness auto
termination
  by (relation "measure (\<lambda>(A, students, i, results, w). length students - i)")
    (auto simp: CONCURRENCY_def)

declare processBatch_from.simps [simp del]

definition processBatch :: "adapters \<Rightarrow> student list \<Rightarrow> world \<Rightarrow> AggregateResult list \<times> world" where
  "processBatch A students w = processBatch_from A students 0 [] w"

text \<open>
  The batch loop of \<open>runScraper\<close>: each batch is processed, its results are appended
  to \<open>allResults\<close>, the snapshot \<open>results.json\<close> is written, and a pause of one second
  follows unless the batch was the last. A failing write throws out of the loop
  (\<open>runScraper\<close> then logs and exits).
\<close>

function runScraper_from ::
  "env \<Rightarrow> student list \<Rightarrow> nat \<Rightarrow> AggregateResult list \<Rightarrow> world
     \<Rightarrow> (error + AggregateResult list) \<times> world" where
  "runScraper_from net students i allResults w =
     (if i < length students then
        (case processBatch (Adapters net) (take BATCH_SIZE (drop i students)) w of
           (batchResults, w1) \<Rightarrow>
             (case writeJson_error net (length (trace w1)) of
                Some e \<Rightarrow> (Inl e, w1)
              | None \<Rightarrow>
                  (let w2 = w1\<lparr>results_json := Some (allResults @ batchResults),
                               trace := trace w1 @ [WriteResults]\<rparr>;
                       w3 = (if i + BATCH_SIZE < length students then sleep 1000 w2 else w2)
                   in runScraper_from net students (i + BATCH_SIZE) (allResults @ batchResults) w3)))
      else (Inr allResults, w))"
  by pat_completeness auto
termination
  by (relation "measure (\<lambda>(net, students, i, allResults, w). length students - i)")
    (auto simp: BATCH_SIZE_def)

declare runScraper_from.simps [simp del]

definition runScraper_loop ::
  "env \<Rightarrow> student list \<Rightarrow> world \<Rightarrow> (error + AggregateResult list) \<times> world" where
  "runScraper_loop net students w = runScraper_from net students 0 [] w"

text \<open>The student a result was made for: its \<open>id\<close>, \<open>name\<close> and \<open>handles\<close>.\<close>

definition student_of :: "AggregateResult \<Rightarrow> student" where
  "student_of r = \<lparr>id' = id' r, name = name r, handles = handles r\<rparr>"

section \<open>generateSummary\<close>

text \<open>
  The summary object, flattened. Averages are JavaScript number divisions and are
  modelled as real divisions. \<open>topSolver\<close> is the pair of \<open>name\<close> and \<open>problems\<close>.
  \<open>reduce\<close> with an initial value is a left fold; \<open>reduce\<close> without one starts from
  the first element and throws a \<open>TypeError\<close> on an empty array. The filter
  \<open>r => r.error\<close> keeps a result whose \<open>error\<close> is truthy.
\<close>

record summary =
  totalStudents :: nat
  summary_timestamp :: int
  leetcode_totalProblems :: int
  leetcode_avgProblems :: real
  leetcode_topSolver :: "string \<times> int"
  github_totalRepos :: int
  github_totalMergedPRs :: int
  github_avgRepos :: real
  github_avgMergedPRs :: real
  codeforces_totalProblems :: int
  codeforces_avgProblems :: real
  atcoder_totalProblems :: int
  atcoder_avgProblems :: real
  avgProcessingTime :: real
  errors :: nat

definition reduce_sum :: "(AggregateResult \<Rightarrow> int) \<Rightarrow> AggregateResult list \<Rightarrow> int" where
  "reduce_sum f results = foldl (\<lambda>sum r. sum + f r) 0 results"

definition reduce_top :: "AggregateResult list \<Rightarrow> error + AggregateResult" where
  "reduce_top results =
     (case results of
        [] \<Rightarrow> Inl (Error ''Reduce of empty array with no initial value'')
      | r0 # rs \<Rightarrow>
          Inr (foldl (\<lambda>max r. if total' (leetcode (data' r)) > total' (leetcode (data' max))
                               then r else max) r0 rs))"

definition generateSummary :: "int \<Rightarrow> AggregateResult list \<Rightarrow> error + summary" where
  "generateSummary now results =
     (let n = real (length results);
          lcTotal = reduce_sum (\<lambda>r. total' (leetcode (data' r))) results;
          ghRepos = reduce_sum (\<lambda>r. repos (github (data' r))) results;
          ghPRs = reduce_sum (\<lambda>r. mergedPRs (github (data' r))) results;
          cfTotal = reduce_sum (\<lambda>r. solved (codeforces (data' r))) results;
          acTotal = reduce_sum (\<lambda>r. solved (atcoder (data' r))) results
      in case reduce_top results of
           Inl e \<Rightarrow> Inl e
         | Inr topLeetcodeSolver \<Rightarrow>
             Inr \<lparr>totalStudents = length results,
                  summary_timestamp = now,
                  leetcode_totalProblems = lcTotal,
                  leetcode_avgProblems = real_of_int lcTotal / n,
                  leetcode_topSolver =
                    (name topLeetcodeSolver, total' (leetcode (data' topLeetcodeSolver))),
                  github_totalRepos = ghRepos,
                  github_totalMergedPRs = ghPRs,
                  github_avgRepos = real_of_int ghRepos / n,
                  github_avgMergedPRs = real_of_int ghPRs / n,
                  codeforces_totalProblems = cfTotal,
                  codeforces_avgProblems = real_of_int cfTotal / n,
                  atcoder_totalProblems = acTotal,
                  atcoder_avgProblems = real_of_int acTotal / n,
                  avgProcessingTime = real_of_int (reduce_sum processingTime results) / n,
                  errors = length (filter (\<lambda>r. truthy (error r)) results)\<rparr>)"

section \<open>RateLimiter under concurrent callers\<close>

text \<open>
  The callers of one chunk reach \<open>wait()\<close> of the same limiter while earlier callers
  are suspended in it. A run of one limiter instance is a sequence of steps: a caller
  enters \<open>wait()\<close> (\<open>Call\<close>) and either passes at once or arms its timer and is
  suspended; time passes (\<open>Elapse\<close>); a suspended caller whose timer has fired runs
  the rest of \<open>wait()\<close> (\<open>Resume\<close>). The two halves are the ones \<open>RateLimiter_wait\<close>
  is made of. \<open>completions\<close> lists the callers whose \<open>wait()\<close> has returned, with the
  time of the return, in order. A step that cannot happen gives \<open>None\<close>.
\<close>

record limiter_run =
  run_clock :: int
  limiter_obj :: RateLimiter
  suspended :: "(nat \<times> int) list"
  completions :: "(nat \<times> int) list"

datatype step = Call nat | Elapse nat | Resume nat

fun limiter_step :: "step \<Rightarrow> limiter_run \<Rightarrow> limiter_run option" where
  "limiter_step (Call c) s =
     (case wait_timer (run_clock s) (limiter_obj s) of
        None \<Rightarrow>
          Some (s\<lparr>limiter_obj := wait_record (run_clock s) (limiter_obj s),
                  completions := completions s @ [(c, run_clock s)]\<rparr>)
      | Some ms \<Rightarrow> Some (s\<lparr>suspended := suspended s @ [(c, run_clock s + ms)]\<rparr>))"
| "limiter_step (Elapse d) s = Some (s\<lparr>run_clock := run_clock s + int d\<rparr>)"
| "limiter_step (Resume c) s =
     (case map_of (suspended s) c of
        None \<Rightarrow> None
      | Some t \<Rightarrow>
          if run_clock s < t then None
          else Some (s\<lparr>limiter_obj := wait_record (run_clock s) (limiter_obj s),
                       suspended := filter (\<lambda>p. fst p \<noteq> c) (suspended s),
                       completions := completions s @ [(c, run_clock s)]\<rparr>))"

fun limiter_steps :: "step list \<Rightarrow> limiter_run \<Rightarrow> limiter_run option" where
  "limiter_steps [] s = Some s"
| "limiter_steps (x # xs) s =
     (case limiter_step x s of None \<Rightarrow> None | Some s' \<Rightarrow> limiter_steps xs s')"

text \<open>Consecutive times of a list are at least \<open>d\<close> apart.\<close>

fun spaced :: "int \<Rightarrow> int list \<Rightarrow> bool" where
  "spaced d [] = True"
| "spaced d [t] = True"
| "spaced d (t # t' # ts) = (d \<le> t' - t \<and> spaced d (t' # ts))"

section \<open>Example surroundings\<close>

text \<open>
  Two surroundings for the examples below. In \<open>offline\<close> every request times out
  after 15 seconds. In \<open>online\<close> every endpoint answers at once: the LeetCode handle
  has solved 120 problems (80 easy, 30 medium, 10 hard), the GitHub handle has 7
  repositories and 3 merged pull requests, Codeforces reports no submissions, AtCoder a
  count of 5, and the SkillRack profile page passes validation (1200 characters, none
  of the markers of a login or error page) but shows neither a heading nor a number,
  so that the heuristics of \<open>scrapeSkillRack\<close> find no name and no count on it.
\<close>

definition offline :: env where
  "offline =
     \<lparr>leetcode_graphql = (\<lambda>n u. Inl (Error ''timeout of 15000ms exceeded'')),
      github_users = (\<lambda>n u. Inl (Error ''timeout of 15000ms exceeded'')),
      github_search_issues = (\<lambda>n u. Inl (Error ''timeout of 15000ms exceeded'')),
      codeforces_user_status = (\<lambda>n u. Inl (Error ''timeout of 15000ms exceeded'')),
      atcoder_ac_rank = (\<lambda>n u. Inl (Error ''timeout of 15000ms exceeded'')),
      skillrack_resume = (\<lambda>n u. Inl (Error ''timeout of 15000ms exceeded'')),
      latency = (\<lambda>n. 15000),
      writeJson_error = (\<lambda>n. None),
      extract_profile = (\<lambda>html u. \<lparr>solved = 0, userInfo = Some \<lparr>profile_name = u, profileFound = False\<rparr>\<rparr>)\<rparr>"

definition valid_profile_page :: string where
  "valid_profile_page = replicate 1200 (CHR ''x'')"

definition online :: env where
  "online =
     \<lparr>leetcode_graphql = (\<lambda>n u. Inr (Some [(''All'', 120), (''Easy'', 80), (''Medium'', 30), (''Hard'', 10)])),
      github_users = (\<lambda>n u. Inr (Some 7)),
      github_search_issues = (\<lambda>n u. Inr (Some 3)),
      codeforces_user_status = (\<lambda>n u. Inr \<lparr>cf_status = ''OK'', cf_result = []\<rparr>),
      atcoder_ac_rank = (\<lambda>n u. Inr (Some 5)),
      skillrack_resume = (\<lambda>n u. Inr valid_profile_page),
      latency = (\<lambda>n. 0),
      writeJson_error = (\<lambda>n. None),
      extract_profile = (\<lambda>html u. \<lparr>solved = 0, userInfo = Some \<lparr>profile_name = u, profileFound = False\<rparr>\<rparr>)\<rparr>"

text \<open>
  Two students: one with the handles of the README and a SkillRack handle in the old
  string format, one with a SkillRack handle in the object format and no other handle.
\<close>

definition alice :: student where
  "alice =
     \<lparr>id' = 1, name = ''ALICE'',
      handles = Some \<lparr>leetcode_handle = Some ''alice'', github_handle = Some ''alice-gh'',
                      codeforces_handle = None, atcoder_handle = Some ''alice_ac'',
                      skillrack_handle = Some (SkillrackString ''alice'')\<rparr>\<rparr>"

definition bob :: student where
  "bob =
     \<lparr>id' = 2, name = ''BOB'',
      handles = Some \<lparr>leetcode_handle = None, github_handle = None,
                      codeforces_handle = None, atcoder_handle = None,
                      skillrack_handle =
                        Some (SkillrackObject (Some ''bob'') (Some ''484170'') (Some ''abc123''))\<rparr>\<rparr>"

text \<open>
  The object \<open>Adapters\<close> with its \<open>github\<close> entry replaced by a function that throws
  when called, with the given message.
\<close>

definition Adapters_github_throwing :: "string \<Rightarrow> adapters" where
  "Adapters_github_throwing msg =
     (Adapters online)\<lparr>github_adapter := (\<lambda>username w. (Throws (Error msg), w))\<rparr>"

text \<open>
  Three more surroundings, each \<open>online\<close> but for LeetCode and Codeforces. In
  \<open>no_such_user\<close> LeetCode knows no such user (no submission counts in the answer)
  and Codeforces answers with the status \<open>FAILED\<close>. In \<open>newcomer\<close> the LeetCode user
  exists and has solved nothing. In \<open>failing_thrice\<close> the LeetCode request fails
  each time, with a different error for the first, the second and any later request of
  a run that starts with an empty trace.
\<close>

definition no_such_user :: env where
  "no_such_user =
     online\<lparr>leetcode_graphql := (\<lambda>n u. Inr None),
            codeforces_user_status := (\<lambda>n u. Inr \<lparr>cf_status = ''FAILED'', cf_result = []\<rparr>)\<rparr>"

definition newcomer :: env where
  "newcomer =
     online\<lparr>leetcode_graphql :=
              (\<lambda>n u. Inr (Some [(''All'', 0), (''Easy'', 0), (''Medium'', 0), (''Hard'', 0)]))\<rparr>"


section \<open>Unfolding the model on concrete runs\<close>

lemmas world_defs =
  fresh_world_def sleep_def axios_def RateLimiter_wait_def wait_timer_def wait_record_def
  new_RateLimiter_def Cache_get_def Cache_set_def CACHE_DURATION_def Let_def

lemmas adapter_defs =
  Adapters_def async_def Adapters_leetcode_def Adapters_github_def Adapters_codeforces_def
  Adapters_atcoder_def Adapters_skillrack_def leetcode_fetch_def github_fetch_def
  codeforces_fetch_def atcoder_fetch_def scrapeSkillRack_def count_of_def

section \<open>Cache: lookup and store\<close>

lemma Cache_get_Some_iff:
  "Cache_get now c key = Some v \<longleftrightarrow>
     (\<exists>item. c key = Some item \<and> data item = v \<and> now - timestamp item < 86400000)"
  by (auto simp: Cache_get_def CACHE_DURATION_def split: option.splits)

lemma Cache_get_None_iff:
  "Cache_get now c key = None \<longleftrightarrow>
     (c key = None \<or> (\<exists>item. c key = Some item \<and> 86400000 \<le> now - timestamp item))"
  by (auto simp: Cache_get_def CACHE_DURATION_def split: option.splits)

lemma Cache_get_expired_absent:
  assumes "c key = Some item" and "86400000 \<le> now - timestamp item"
  shows "Cache_get now c k = Cache_get now (c(key := None)) k"
  using assms by (simp add: Cache_get_def CACHE_DURATION_def)

text \<open>
  C5. \<open>Cache.get\<close> returns the stored value exactly when the key has an item whose age
  (lookup time minus stored timestamp) is strictly below 24 hours, and reports a miss
  otherwise. \<open>Cache.set\<close> overwrites whatever the key held with the new value and the
  current time and touches no other key. An expired item answers every lookup as an
  absent one does, and validity is decided at lookup time: the item written at time
  \<open>t\<close> is a hit for the lookup times \<open>now\<close> with \<open>now - t < 24h\<close> and a miss for the
  others, while lookups leave the dictionary as it is.
\<close>

theorem Cache_get_set_contract:
  "(Cache_get now c key = Some v \<longleftrightarrow>
      (\<exists>item. c key = Some item \<and> data item = v \<and> now - timestamp item < 86400000))
   \<and> (Cache_get now c key = None \<longleftrightarrow>
      (c key = None \<or> (\<exists>item. c key = Some item \<and> 86400000 \<le> now - timestamp item)))
   \<and> Cache_set t c key v key = Some \<lparr>data = v, timestamp = t\<rparr>
   \<and> (\<forall>k. k \<noteq> key \<longrightarrow> Cache_set t c key v k = c k)
   \<and> Cache_get now (Cache_set t c key v) key = (if now - t < 86400000 then Some v else None)
   \<and> (\<forall>item k. c key = Some item \<and> 86400000 \<le> now - timestamp item \<longrightarrow>
        Cache_get now c k = Cache_get now (c(key := None)) k)"
proof -
  have set_same: "Cache_set t c key v key = Some \<lparr>data = v, timestamp = t\<rparr>"
    by (simp add: Cache_set_def)
  have set_other: "\<forall>k. k \<noteq> key \<longrightarrow> Cache_set t c key v k = c k"
    by (simp add: Cache_set_def)
  have get_set: "Cache_get now (Cache_set t c key v) key = (if now - t < 86400000 then Some v else None)"
    by (simp add: Cache_get_def Cache_set_def CACHE_DURATION_def)
  have expired: "\<forall>item k. c key = Some item \<and> 86400000 \<le> now - timestamp item \<longrightarrow>
        Cache_get now c k = Cache_get now (c(key := None)) k"
    using Cache_get_expired_absent by blast
  show ?thesis
    using Cache_get_Some_iff [of now c key v] Cache_get_None_iff [of now c key]
      set_same set_other get_set expired
    by blast
qed

theorem Cache_get_set_contract_witness:
  "Cache_get 86400999 [''leetcode_alice'' \<mapsto> \<lparr>data = (120::int), timestamp = 1000\<rparr>] ''leetcode_alice''
     = Some 120
   \<and> Cache_get 86401000 [''leetcode_alice'' \<mapsto> \<lparr>data = (120::int), timestamp = 1000\<rparr>] ''leetcode_alice''
     = None
   \<and> Cache_get 86401000 [''leetcode_alice'' \<mapsto> \<lparr>data = (120::int), timestamp = 1000\<rparr>] ''leetcode_bob''
     = Cache_get 86401000 Map.empty ''leetcode_bob''
   \<and> Cache_set 5000 [''leetcode_alice'' \<mapsto> \<lparr>data = (120::int), timestamp = 1000\<rparr>] ''leetcode_alice'' 7
        ''leetcode_alice'' = Some \<lparr>data = 7, timestamp = 5000\<rparr>
   \<and> Cache_set 5000 [''leetcode_alice'' \<mapsto> \<lparr>data = (120::int), timestamp = 1000\<rparr>] ''leetcode_bob'' 7
        ''leetcode_alice'' = Some \<lparr>data = 120, timestamp = 1000\<rparr>"
proof -
  let ?c = "[''leetcode_alice'' \<mapsto> \<lparr>data = (120::int), timestamp = 1000\<rparr>]"
  note hit = Cache_get_set_contract [of 86400999 ?c "''leetcode_alice''" 120 0, THEN conjunct1]
  note miss = Cache_get_set_contract [of 86401000 ?c "''leetcode_alice''" 120 0]
  note expired = miss [THEN conjunct2, THEN conjunct2, THEN conjunct2, THEN conjunct2, THEN conjunct2,
      THEN spec, THEN spec, THEN mp]
  note st = Cache_get_set_contract [of 0 ?c "''leetcode_alice''" 7 5000,
      THEN conjunct2, THEN conjunct2, THEN conjunct1]
  note st' = Cache_get_set_contract [of 0 ?c "''leetcode_bob''" 7 5000,
      THEN conjunct2, THEN conjunct2, THEN conjunct2, THEN conjunct1, THEN spec, THEN mp]
  have a: "Cache_get 86400999 ?c ''leetcode_alice'' = Some 120"
    using hit by simp
  have b: "Cache_get 86401000 ?c ''leetcode_alice'' = None"
    using miss [THEN conjunct2, THEN conjunct1] by simp
  have "Cache_get 86401000 ?c ''leetcode_bob''
      = Cache_get 86401000 (?c(''leetcode_alice'' := None)) ''leetcode_bob''"
    by (rule expired [of "\<lparr>data = 120, timestamp = 1000\<rparr>"]) simp
  then have c: "Cache_get 86401000 ?c ''leetcode_bob'' = Cache_get 86401000 Map.empty ''leetcode_bob''"
    by simp
  have d: "Cache_set 5000 ?c ''leetcode_alice'' 7 ''leetcode_alice'' = Some \<lparr>data = 7, timestamp = 5000\<rparr>"
    by (rule st)
  have "Cache_set 5000 ?c ''leetcode_bob'' 7 ''leetcode_alice'' = ?c ''leetcode_alice''"
    by (rule st') simp
  then have e: "Cache_set 5000 ?c ''leetcode_bob'' 7 ''leetcode_alice'' = Some \<lparr>data = 120, timestamp = 1000\<rparr>"
    by simp
  show ?thesis
    by (intro conjI a b c d e)
qed

section \<open>retryRequest: three attempts with doubling delays\<close>

lemma retryRequest_unroll:
  "retryRequest fn 3 w =
     (case fn w of
        (Inr v, w1) \<Rightarrow> (Returned v, w1)
      | (Inl e1, w1) \<Rightarrow>
          (case fn (sleep 2000 w1) of
             (Inr v, w2) \<Rightarrow> (Returned v, w2)
           | (Inl e2, w2) \<Rightarrow>
               (case fn (sleep 4000 w2) of
                  (Inr v, w3) \<Rightarrow> (Returned v, w3)
                | (Inl e3, w3) \<Rightarrow> (Thrown e3, w3))))"
  unfolding retryRequest_def
  apply (subst retryRequest_from.simps)
  apply (subst retryRequest_from.simps)
  apply (subst retryRequest_from.simps)
  apply (simp add: RETRY_DELAY_def split: prod.splits sum.splits)
  done

text \<open>
  C6. With three attempts \<open>retryRequest\<close> invokes the operation, and returns its
  result at once if it succeeds; after a first failure it sleeps 2000 ms and invokes it
  again; after a second failure it sleeps 4000 ms and invokes it a third time; a third
  failure is thrown to the caller. So an operation that always fails is invoked
  exactly three times, with the delays \<open>2000 * 2 ^ 0\<close> and \<open>2000 * 2 ^ 1\<close> between the
  invocations, and the last failure is the one propagated.
\<close>

theorem retryRequest_three_attempts:
  "retryRequest fn 3 w =
     (case fn w of
        (Inr v, w1) \<Rightarrow> (Returned v, w1)
      | (Inl e1, w1) \<Rightarrow>
          (case fn (sleep 2000 w1) of
             (Inr v, w2) \<Rightarrow> (Returned v, w2)
           | (Inl e2, w2) \<Rightarrow>
               (case fn (sleep 4000 w2) of
                  (Inr v, w3) \<Rightarrow> (Returned v, w3)
                | (Inl e3, w3) \<Rightarrow> (Thrown e3, w3))))"
  by (rule retryRequest_unroll)

theorem retryRequest_three_attempts_witness:
  "fst (retryRequest (leetcode_fetch offline ''alice'') 3 (fresh_world 0))
     = Thrown (Error ''timeout of 15000ms exceeded'')
   \<and> trace (snd (retryRequest (leetcode_fetch offline ''alice'') 3 (fresh_world 0)))
     = [Request (LeetcodeGraphql ''alice''), Timer 2000,
        Request (LeetcodeGraphql ''alice''), Timer 4000,
        Request (LeetcodeGraphql ''alice'')]
   \<and> trace (snd (retryRequest (leetcode_fetch online ''alice'') 3 (fresh_world 0)))
     = [Request (LeetcodeGraphql ''alice'')]"
  by (simp add: retryRequest_three_attempts leetcode_fetch_def axios_def offline_def online_def
      fresh_world_def sleep_def Let_def count_of_def)

section \<open>RateLimiter: spacing of dispatches\<close>

text \<open>
  A call of \<open>wait()\<close> that runs with no other caller inside the same limiter returns
  no earlier than one interval after the last recorded dispatch, and records the time
  of its return.
\<close>

lemma RateLimiter_wait_spacing:
  "lastRequest (limiters (RateLimiter_wait n w) n) = clock (RateLimiter_wait n w)
   \<and> lastRequest (limiters w n) + delay (limiters w n) \<le> clock (RateLimiter_wait n w)
   \<and> clock w \<le> clock (RateLimiter_wait n w)"
  by (auto simp: RateLimiter_wait_def wait_timer_def wait_record_def sleep_def Let_def
      split: option.splits if_splits)

text \<open>
  C7. Three callers enter \<open>wait()\<close> of a new limiter with an interval of 500 ms in the
  same turn of the event loop. The first passes at once and records the time. The
  second and the third both read that record before either of them writes it, both arm
  a timer of 500 ms, and both return when it fires: two consecutive completions at the
  same millisecond, not 500 ms apart.
\<close>

theorem RateLimiter_wait_concurrent_callers:
  "limiter_steps [Call 1, Call 2, Call 3, Elapse 500, Resume 2, Resume 3]
     \<lparr>run_clock = 1700000000000, limiter_obj = new_RateLimiter 500, suspended = [], completions = []\<rparr>
   = Some \<lparr>run_clock = 1700000000500,
           limiter_obj = \<lparr>delay = 500, lastRequest = 1700000000500\<rparr>,
           suspended = [],
           completions = [(1, 1700000000000), (2, 1700000000500), (3, 1700000000500)]\<rparr>
   \<and> \<not> spaced 500 (map snd [(1::nat, 1700000000000), (2, 1700000000500), (3, 1700000000500)])"
  by (simp add: wait_timer_def wait_record_def new_RateLimiter_def)

section \<open>processStudent: the derived total\<close>

text \<open>
  C3. In the record \<open>processStudent\<close> returns, on the \<open>try\<close> path and on the \<open>catch\<close>
  path alike, \<open>totalCP\<close> is the sum of \<open>leetcode.total\<close>, \<open>codeforces.solved\<close>,
  \<open>atcoder.solved\<close> and \<open>skillrack.solved\<close> of that record; the GitHub counts are no
  part of it.
\<close>

theorem processStudent_totalCP:
  "totalCP (data' (fst (processStudent A s w)))
     = total' (leetcode (data' (fst (processStudent A s w))))
       + solved (codeforces (data' (fst (processStudent A s w))))
       + solved (atcoder (data' (fst (processStudent A s w))))
       + solved (skillrack (data' (fst (processStudent A s w))))"
  by (simp add: processStudent_def Let_def split: prod.splits sum.splits)

theorem processStudent_totalCP_witness:
  "totalCP (data' (fst (processStudent (Adapters online) alice (fresh_world 1700000000000)))) = 125
   \<and> leetcode (data' (fst (processStudent (Adapters online) alice (fresh_world 1700000000000))))
       = \<lparr>total' = 120, easy = 80, medium = 30, hard = 10\<rparr>
   \<and> github (data' (fst (processStudent (Adapters online) alice (fresh_world 1700000000000))))
       = \<lparr>repos = 7, mergedPRs = 3\<rparr>"
proof -
  let ?r = "fst (processStudent (Adapters online) alice (fresh_world 1700000000000))"
  have run: "data' ?r
      = \<lparr>leetcode = \<lparr>total' = 120, easy = 80, medium = 30, hard = 10\<rparr>,
         github = \<lparr>repos = 7, mergedPRs = 3\<rparr>,
         codeforces = \<lparr>solved = 0\<rparr>,
         atcoder = \<lparr>solved = 5\<rparr>,
         skillrack = \<lparr>solved = 0, userInfo = None\<rparr>,
         totalCP = 125\<rparr>"
    by (simp add: processStudent_def allSettled_def alice_def adapter_defs world_defs online_def
        retryRequest_default_def RETRY_ATTEMPTS_def retryRequest_unroll)
  have "totalCP (data' ?r) = 120 + 0 + 5 + 0"
    using processStudent_totalCP [of "Adapters online" alice "fresh_world 1700000000000"]
    by (simp add: run)
  then show ?thesis
    by (simp add: run)
qed

section \<open>processStudent: the catch path\<close>

text \<open>
  C8. If the \<open>try\<close> block of \<open>processStudent\<close> throws (a call of an adapter throws
  instead of giving a promise), \<open>processStudent\<close> still returns a record: it carries
  the id, name and handles of the student, zero-valued metrics for every platform, a
  total of 0, and the message of the thrown error in \<open>error\<close>. \<open>processStudent\<close>
  returns a record in every case; it has no rejecting outcome.
\<close>

theorem processStudent_catch:
  assumes "allSettled A (handles s) w = (Inl e, w')"
  shows "processStudent A s w =
     (\<lparr>id' = id' s, name = name s, handles = handles s,
       data' = \<lparr>leetcode = \<lparr>total' = 0, easy = 0, medium = 0, hard = 0\<rparr>,
                 github = \<lparr>repos = 0, mergedPRs = 0\<rparr>,
                 codeforces = \<lparr>solved = 0\<rparr>,
                 atcoder = \<lparr>solved = 0\<rparr>,
                 skillrack = \<lparr>solved = 0, userInfo = None\<rparr>,
                 totalCP = 0\<rparr>,
       processingTime = clock w' - clock w,
       timestamp' = clock w',
       error = Some (message e)\<rparr>, w')"
  using assms by (simp add: processStudent_def)

lemma allSettled_github_throwing:
  "fst (allSettled (Adapters_github_throwing msg) (handles alice) (fresh_world 1700000000000))
     = Inl (Error msg)"
  by (simp add: allSettled_def Adapters_github_throwing_def Adapters_def async_def alice_def
      split: prod.splits)

theorem processStudent_catch_witness:
  "fst (processStudent (Adapters_github_throwing ''Adapters.github is not a function'') alice
         (fresh_world 1700000000000))
   = \<lparr>id' = 1, name = ''ALICE'', handles = handles alice,
       data' = \<lparr>leetcode = \<lparr>total' = 0, easy = 0, medium = 0, hard = 0\<rparr>,
                 github = \<lparr>repos = 0, mergedPRs = 0\<rparr>,
                 codeforces = \<lparr>solved = 0\<rparr>,
                 atcoder = \<lparr>solved = 0\<rparr>,
                 skillrack = \<lparr>solved = 0, userInfo = None\<rparr>,
                 totalCP = 0\<rparr>,
       processingTime = 0,
       timestamp' = 1700000000000,
       error = Some ''Adapters.github is not a function''\<rparr>"
proof -
  let ?A = "Adapters_github_throwing ''Adapters.github is not a function''"
  let ?w = "fresh_world 1700000000000"
  have thrown: "allSettled ?A (handles alice) ?w
      = (Inl (Error ''Adapters.github is not a function''), snd (allSettled ?A (handles alice) ?w))"
    using allSettled_github_throwing [of "''Adapters.github is not a function''"]
    by (simp add: prod_eq_iff)
  have time: "clock (snd (allSettled ?A (handles alice) ?w)) = 1700000000000"
    by (simp add: allSettled_def Adapters_github_throwing_def alice_def adapter_defs world_defs
        retryRequest_default_def RETRY_ATTEMPTS_def retryRequest_unroll online_def)
  show ?thesis
    using processStudent_catch [OF thrown] time
    by (simp add: alice_def fresh_world_def)
qed

section \<open>The skillrack adapter\<close>

lemma Adapters_skillrack_effect:
  assumes "snd (Adapters_skillrack net h w) \<noteq> w"
  shows "\<exists>u i k. h = Some (SkillrackObject u (Some i) (Some k)) \<and> i \<noteq> [] \<and> k \<noteq> []"
proof (cases h)
  case None
  with assms show ?thesis by (simp add: Adapters_skillrack_def)
next
  case (Some hd)
  show ?thesis
  proof (cases hd)
    case (SkillrackString s)
    with Some assms show ?thesis by (simp add: Adapters_skillrack_def)
  next
    case (SkillrackObject u i k)
    with Some assms have "truthy i \<and> truthy k"
      by (auto simp: Adapters_skillrack_def split: if_splits)
    then obtain i' k' where "i = Some i'" "i' \<noteq> []" "k = Some k'" "k' \<noteq> []"
      by (cases i; cases k; simp)
    with Some SkillrackObject show ?thesis by simp
  qed
qed

text \<open>
  C9. For a SkillRack identity that is a bare string, or an object whose \<open>id\<close> or
  \<open>key\<close> is missing (or empty), the adapter returns \<open>{ solved: 0, userInfo: null }\<close>
  and leaves the world as it was: no request, no wait on the limiter, no timer, no
  change of the cache. Whenever the adapter has an effect the identity is an object
  with both \<open>id\<close> and \<open>key\<close>; such an identity is handed to \<open>scrapeSkillRack\<close>. The
  scraper itself accepts a bare non-empty string: it waits on the limiter and requests
  the fallback profile URL made of the string.
\<close>

theorem Adapters_skillrack_needs_id_and_key:
  "Adapters_skillrack net (Some (SkillrackString s)) w = (Inr \<lparr>solved = 0, userInfo = None\<rparr>, w)
   \<and> (\<not> truthy i \<or> \<not> truthy k \<longrightarrow>
        Adapters_skillrack net (Some (SkillrackObject u i k)) w
          = (Inr \<lparr>solved = 0, userInfo = None\<rparr>, w))
   \<and> (snd (Adapters_skillrack net h w) \<noteq> w \<longrightarrow>
        (\<exists>u i k. h = Some (SkillrackObject u (Some i) (Some k)) \<and> i \<noteq> [] \<and> k \<noteq> []))
   \<and> (truthy i \<and> truthy k \<longrightarrow>
        Adapters_skillrack net (Some (SkillrackObject u i k)) w
          = (Inr (fst (scrapeSkillRack net (Some (SkillrackObject u i k)) skillrackLimiter w)),
             snd (scrapeSkillRack net (Some (SkillrackObject u i k)) skillrackLimiter w)))
   \<and> (s \<noteq> [] \<longrightarrow>
        trace (snd (scrapeSkillRack net (Some (SkillrackString s)) skillrackLimiter w))
          = trace (RateLimiter_wait skillrackLimiter w)
            @ [Request (SkillrackResume (''https://www.skillrack.com/faces/resume.xhtml?id='' @ s))])"
proof -
  have a: "Adapters_skillrack net (Some (SkillrackString s)) w = (Inr \<lparr>solved = 0, userInfo = None\<rparr>, w)"
    by (simp add: Adapters_skillrack_def)
  have b: "\<not> truthy i \<or> \<not> truthy k \<longrightarrow>
        Adapters_skillrack net (Some (SkillrackObject u i k)) w
          = (Inr \<lparr>solved = 0, userInfo = None\<rparr>, w)"
    by (auto simp: Adapters_skillrack_def)
  have c: "snd (Adapters_skillrack net h w) \<noteq> w \<longrightarrow>
        (\<exists>u i k. h = Some (SkillrackObject u (Some i) (Some k)) \<and> i \<noteq> [] \<and> k \<noteq> [])"
    using Adapters_skillrack_effect by blast
  have d: "truthy i \<and> truthy k \<longrightarrow>
        Adapters_skillrack net (Some (SkillrackObject u i k)) w
          = (Inr (fst (scrapeSkillRack net (Some (SkillrackObject u i k)) skillrackLimiter w)),
             snd (scrapeSkillRack net (Some (SkillrackObject u i k)) skillrackLimiter w))"
    by (simp add: Adapters_skillrack_def split: prod.splits)
  have e: "s \<noteq> [] \<longrightarrow>
        trace (snd (scrapeSkillRack net (Some (SkillrackString s)) skillrackLimiter w))
          = trace (RateLimiter_wait skillrackLimiter w)
            @ [Request (SkillrackResume (''https://www.skillrack.com/faces/resume.xhtml?id='' @ s))]"
    by (auto simp: scrapeSkillRack_def axios_def Let_def split: prod.splits sum.splits)
  from a b c d e show ?thesis
    by (intro conjI)
qed

theorem Adapters_skillrack_needs_id_and_key_witness:
  "Adapters_skillrack offline (Some (SkillrackString ''alice'')) (fresh_world 1700000000000)
     = (Inr \<lparr>solved = 0, userInfo = None\<rparr>, fresh_world 1700000000000)
   \<and> Adapters_skillrack offline (Some (SkillrackObject (Some ''bob'') (Some ''484170'') None))
       (fresh_world 1700000000000)
     = (Inr \<lparr>solved = 0, userInfo = None\<rparr>, fresh_world 1700000000000)
   \<and> trace (snd (Adapters_skillrack offline
                   (Some (SkillrackObject (Some ''bob'') (Some ''484170'') (Some ''abc123'')))
                   (fresh_world 1700000000000)))
     = [Request (SkillrackResume ''https://www.skillrack.com/faces/resume.xhtml?id=484170&key=abc123'')]
   \<and> trace (snd (scrapeSkillRack offline (Some (SkillrackString ''alice'')) skillrackLimiter
                   (fresh_world 1700000000000)))
     = [Request (SkillrackResume ''https://www.skillrack.com/faces/resume.xhtml?id=alice'')]"
proof -
  let ?w = "fresh_world 1700000000000"
  let ?bob = "SkillrackObject (Some ''bob'') (Some ''484170'') (Some ''abc123'')"
  note thm_string = Adapters_skillrack_needs_id_and_key
    [of offline "''alice''" ?w "Some ''484170''" None "Some ''bob''" None]
  note thm_object = Adapters_skillrack_needs_id_and_key
    [of offline "''alice''" ?w "Some ''484170''" "Some ''abc123''" "Some ''bob''" None]
  have a: "Adapters_skillrack offline (Some (SkillrackString ''alice'')) ?w
      = (Inr \<lparr>solved = 0, userInfo = None\<rparr>, ?w)"
    by (rule thm_string [THEN conjunct1])
  have b: "Adapters_skillrack offline (Some (SkillrackObject (Some ''bob'') (Some ''484170'') None)) ?w
      = (Inr \<lparr>solved = 0, userInfo = None\<rparr>, ?w)"
    by (rule thm_string [THEN conjunct2, THEN conjunct1, THEN mp]) simp
  have "Adapters_skillrack offline (Some ?bob) ?w
      = (Inr (fst (scrapeSkillRack offline (Some ?bob) skillrackLimiter ?w)),
         snd (scrapeSkillRack offline (Some ?bob) skillrackLimiter ?w))"
    by (rule thm_object [THEN conjunct2, THEN conjunct2, THEN conjunct2, THEN conjunct1, THEN mp]) simp
  then have c: "trace (snd (Adapters_skillrack offline (Some ?bob) ?w))
      = [Request (SkillrackResume ''https://www.skillrack.com/faces/resume.xhtml?id=484170&key=abc123'')]"
    by (simp add: scrapeSkillRack_def axios_def offline_def fresh_world_def RateLimiter_wait_def
        wait_timer_def wait_record_def new_RateLimiter_def Let_def)
  have "trace (snd (scrapeSkillRack offline (Some (SkillrackString ''alice'')) skillrackLimiter ?w))
      = trace (RateLimiter_wait skillrackLimiter ?w)
        @ [Request (SkillrackResume (''https://www.skillrack.com/faces/resume.xhtml?id='' @ ''alice''))]"
    by (rule thm_string [THEN conjunct2, THEN conjunct2, THEN conjunct2, THEN conjunct2, THEN mp]) simp
  then have d: "trace (snd (scrapeSkillRack offline (Some (SkillrackString ''alice'')) skillrackLimiter ?w))
      = [Request (SkillrackResume ''https://www.skillrack.com/faces/resume.xhtml?id=alice'')]"
    by (simp add: fresh_world_def RateLimiter_wait_def wait_timer_def wait_record_def
        new_RateLimiter_def Let_def)
  show ?thesis
    by (intro conjI a b c d)
qed

section \<open>The batch pipeline: one result per student, in order\<close>

lemma processStudent_student: "student_of (fst (processStudent A s w)) = s"
  by (simp add: processStudent_def student_of_def Let_def split: prod.splits sum.splits)

lemma processChunk_students: "map student_of (fst (processChunk A chunk w)) = chunk"
proof (induction chunk arbitrary: w)
  case Nil
  show ?case by simp
next
  case (Cons s chunk)
  obtain r w1 where r: "processStudent A s w = (r, w1)"
    by (cases "processStudent A s w")
  obtain rs w2 where rs: "processChunk A chunk w1 = (rs, w2)"
    by (cases "processChunk A chunk w1")
  from r have "student_of r = s"
    using processStudent_student [of A s w] by simp
  moreover from rs have "map student_of rs = chunk"
    using Cons.IH [of w1] by simp
  ultimately show ?case
    using r rs by simp
qed

lemma slice_rest: "take n (drop i xs) @ drop (i + n) xs = drop i xs"
  by (metis add.commute append_take_drop_id drop_drop)

lemma processBatch_from_students:
  "map student_of (fst (processBatch_from A students i results w))
     = map student_of results @ drop i students"
proof (induction A students i results w rule: processBatch_from.induct)
  case (1 A students i results w)
  show ?case
  proof (cases "i < length students")
    case False
    then show ?thesis
      by (simp add: processBatch_from.simps [of A students i results w])
  next
    case True
    obtain chunkResults w' where c: "processChunk A (take CONCURRENCY (drop i students)) w = (chunkResults, w')"
      by (cases "processChunk A (take CONCURRENCY (drop i students)) w")
    have m: "map student_of chunkResults = take CONCURRENCY (drop i students)"
      using processChunk_students [of A "take CONCURRENCY (drop i students)" w] c by simp
    have "map student_of (fst (processBatch_from A students (i + CONCURRENCY) (results @ chunkResults) w'))
        = map student_of (results @ chunkResults) @ drop (i + CONCURRENCY) students"
      using "1.IH" [OF True c [symmetric]] .
    then show ?thesis
      using True c m by (simp add: processBatch_from.simps [of A students i results w] slice_rest)
  qed
qed

lemma runScraper_from_students:
  "runScraper_from net students i allResults w = (Inr rs, w')
    \<Longrightarrow> map student_of rs = map student_of allResults @ drop i students"
proof (induction net students i allResults w rule: runScraper_from.induct)
  case (1 net students i allResults w)
  show ?case
  proof (cases "i < length students")
    case False
    with "1.prems" show ?thesis
      by (simp add: runScraper_from.simps [of net students i allResults w])
  next
    case True
    obtain batchResults w1 where b: "processBatch (Adapters net) (take BATCH_SIZE (drop i students)) w = (batchResults, w1)"
      by (cases "processBatch (Adapters net) (take BATCH_SIZE (drop i students)) w")
    have m: "map student_of batchResults = take BATCH_SIZE (drop i students)"
      using processBatch_from_students [of "Adapters net" "take BATCH_SIZE (drop i students)" 0 "[]" w] b
      by (simp add: processBatch_def)
    show ?thesis
    proof (cases "writeJson_error net (length (trace w1))")
      case (Some e)
      with "1.prems" True b show ?thesis
        by (simp add: runScraper_from.simps [of net students i allResults w])
    next
      case None
      define w2 where "w2 = w1\<lparr>results_json := Some (allResults @ batchResults), trace := trace w1 @ [WriteResults]\<rparr>"
      define w3 where "w3 = (if i + BATCH_SIZE < length students then sleep 1000 w2 else w2)"
      have "runScraper_from net students (i + BATCH_SIZE) (allResults @ batchResults) w3 = (Inr rs, w')"
        using "1.prems" True b None
        by (auto simp add: runScraper_from.simps [of net students i allResults w] w2_def w3_def Let_def
            split: if_splits)
      then have "map student_of rs = map student_of (allResults @ batchResults) @ drop (i + BATCH_SIZE) students"
        using "1.IH" [OF True b [symmetric] None w2_def w3_def] by simp
      then show ?thesis
        using m by (simp add: slice_rest)
    qed
  qed
qed

lemma runScraper_from_returns:
  "\<forall>n. writeJson_error net n = None
    \<Longrightarrow> \<exists>rs w'. runScraper_from net students i allResults w = (Inr rs, w')"
proof (induction net students i allResults w rule: runScraper_from.induct)
  case (1 net students i allResults w)
  show ?case
  proof (cases "i < length students")
    case False
    then show ?thesis
      by (simp add: runScraper_from.simps [of net students i allResults w])
  next
    case True
    obtain batchResults w1 where b: "processBatch (Adapters net) (take BATCH_SIZE (drop i students)) w = (batchResults, w1)"
      by (cases "processBatch (Adapters net) (take BATCH_SIZE (drop i students)) w")
    have None: "writeJson_error net (length (trace w1)) = None"
      using "1.prems" by simp
    define w2 where "w2 = w1\<lparr>results_json := Some (allResults @ batchResults), trace := trace w1 @ [WriteResults]\<rparr>"
    define w3 where "w3 = (if i + BATCH_SIZE < length students then sleep 1000 w2 else w2)"
    have "\<exists>rs w'. runScraper_from net students (i + BATCH_SIZE) (allResults @ batchResults) w3 = (Inr rs, w')"
      using "1.IH" [OF True b [symmetric] None w2_def w3_def "1.prems"] .
    then show ?thesis
      using True b None
      by (auto simp add: runScraper_from.simps [of net students i allResults w] w2_def w3_def Let_def
          split: if_splits)
  qed
qed

text \<open>
  C1. \<open>processBatch\<close>, for any adapters (failing, rejecting or throwing ones
  included), returns one result per student of the batch, in the order of the batch:
  cut down to \<open>id\<close>, \<open>name\<close> and \<open>handles\<close>, the list of results is the list of
  students. The same holds for the results the batch loop of \<open>runScraper\<close> has
  accumulated when it ends, whatever the remote platforms answer; and the loop does
  end with such a list whenever no write of the snapshot file fails.
\<close>

theorem batch_pipeline_one_result_per_student:
  "map student_of (fst (processBatch A batch w)) = batch
   \<and> (\<forall>rs w'. runScraper_loop net students w = (Inr rs, w')
        \<longrightarrow> map student_of rs = students \<and> length rs = length students)
   \<and> ((\<forall>n. writeJson_error net n = None)
        \<longrightarrow> (\<exists>rs w'. runScraper_loop net students w = (Inr rs, w')
               \<and> map student_of rs = students))"
proof -
  have batch: "map student_of (fst (processBatch A batch w)) = batch"
    using processBatch_from_students [of A batch 0 "[]" w] by (simp add: processBatch_def)
  have run: "map student_of rs = students \<and> length rs = length students"
    if "runScraper_loop net students w = (Inr rs, w')" for rs w'
  proof -
    from that have "map student_of rs = students"
      using runScraper_from_students [of net students 0 "[]" w rs w']
      by (simp add: runScraper_loop_def)
    then show ?thesis
      using length_map [of student_of rs] by simp
  qed
  have returns: "\<exists>rs w'. runScraper_loop net students w = (Inr rs, w') \<and> map student_of rs = students"
    if "\<forall>n. writeJson_error net n = None"
  proof -
    from that obtain rs w' where "runScraper_loop net students w = (Inr rs, w')"
      using runScraper_from_returns [of net students 0 "[]" w]
      by (auto simp: runScraper_loop_def)
    with run show ?thesis by blast
  qed
  from batch run returns show ?thesis
    by blast
qed

theorem batch_pipeline_one_result_per_student_witness:
  "map student_of
     (fst (processBatch (Adapters_github_throwing ''Adapters.github is not a function'')
            [alice, bob] (fresh_world 1700000000000)))
     = [alice, bob]
   \<and> (\<exists>rs w'. runScraper_loop offline [alice, bob] (fresh_world 1700000000000) = (Inr rs, w')
        \<and> map student_of rs = [alice, bob])"
proof -
  note pipeline = batch_pipeline_one_result_per_student
    [of "Adapters_github_throwing ''Adapters.github is not a function''" "[alice, bob]"
      "fresh_world 1700000000000" offline "[alice, bob]"]
  have writes: "\<forall>n. writeJson_error offline n = None"
    by (simp add: offline_def)
  from pipeline [THEN conjunct2, THEN conjunct2, THEN mp, OF writes] pipeline [THEN conjunct1]
  show ?thesis
    by (intro conjI)
qed

section \<open>generateSummary: the summary of a result list\<close>

lemma reduce_sum_foldl: "foldl (\<lambda>sum r. sum + f r) (a::int) rs = a + sum_list (map f rs)"
  by (induction rs arbitrary: a) simp_all

lemma reduce_sum_sum_list: "reduce_sum f rs = sum_list (map f rs)"
  by (simp add: reduce_sum_def reduce_sum_foldl)

lemma top_fold:
  "total' (leetcode (data' r0)) \<le> total' (leetcode (data' (foldl (\<lambda>max r. if total' (leetcode (data' r)) > total' (leetcode (data' max)) then r else max) r0 rs)))
   \<and> (\<forall>r \<in> set rs. total' (leetcode (data' r)) \<le> total' (leetcode (data' (foldl (\<lambda>max r. if total' (leetcode (data' r)) > total' (leetcode (data' max)) then r else max) r0 rs))))
   \<and> foldl (\<lambda>max r. if total' (leetcode (data' r)) > total' (leetcode (data' max)) then r else max) r0 rs \<in> set (r0 # rs)"
proof (induction rs arbitrary: r0)
  case Nil
  show ?case by simp
next
  case (Cons r rs)
  let ?f = "\<lambda>max r. if total' (leetcode (data' r)) > total' (leetcode (data' max)) then r else max"
  let ?t = "\<lambda>r. total' (leetcode (data' r))"
  note IH = Cons.IH [of "?f r0 r"]
  have step: "?t r0 \<le> ?t (?f r0 r)" "?t r \<le> ?t (?f r0 r)" "?f r0 r \<in> {r0, r}"
    by auto
  have "foldl ?f r0 (r # rs) = foldl ?f (?f r0 r) rs"
    by simp
  moreover have "?t r0 \<le> ?t (foldl ?f (?f r0 r) rs)"
    using IH step(1) by linarith
  moreover have "?t r \<le> ?t (foldl ?f (?f r0 r) rs)"
    using IH step(2) by linarith
  moreover have "\<forall>x \<in> set rs. ?t x \<le> ?t (foldl ?f (?f r0 r) rs)"
    using IH by blast
  moreover have "foldl ?f (?f r0 r) rs \<in> set (r0 # r # rs)"
    using IH step(3) by auto
  ultimately show ?case
    by (metis (no_types, lifting) set_ConsD)
qed

lemma reduce_top_Inr:
  assumes "results \<noteq> []"
  shows "\<exists>top. reduce_top results = Inr top \<and> top \<in> set results
      \<and> (\<forall>r \<in> set results. total' (leetcode (data' r)) \<le> total' (leetcode (data' top)))"
proof -
  from assms obtain r0 rs where results: "results = r0 # rs"
    by (cases results) auto
  show ?thesis
    using top_fold [of r0 rs] by (auto simp: results reduce_top_def)
qed

text \<open>
  On an empty list \<open>generateSummary\<close> throws: the reduction for the top solver has no
  initial value. On a non-empty list it returns a summary whose averages are the
  totals divided by the length of the list and whose top LeetCode solver is an
  element of the list with a \<open>leetcode.total\<close> at least that of every result. On a
  list in which no error message is empty, the error count is the number of results
  that carry an \<open>error\<close> field.
\<close>

lemma generateSummary_empty:
  "generateSummary now [] = Inl (Error ''Reduce of empty array with no initial value'')"
  by (simp add: generateSummary_def reduce_top_def)

lemma generateSummary_nonempty:
  assumes "results \<noteq> []"
  shows "\<exists>s. generateSummary now results = Inr s
           \<and> ((\<forall>r \<in> set results. error r \<noteq> Some [])
                \<longrightarrow> errors s = length (filter (\<lambda>r. error r \<noteq> None) results))
           \<and> (\<forall>r \<in> set results. total' (leetcode (data' r)) \<le> snd (leetcode_topSolver s))
           \<and> (\<exists>r \<in> set results. leetcode_topSolver s = (name r, total' (leetcode (data' r))))
           \<and> leetcode_totalProblems s = sum_list (map (\<lambda>r. total' (leetcode (data' r))) results)
           \<and> leetcode_avgProblems s = real_of_int (leetcode_totalProblems s) / real (length results)
           \<and> github_avgRepos s = real_of_int (github_totalRepos s) / real (length results)
           \<and> github_avgMergedPRs s = real_of_int (github_totalMergedPRs s) / real (length results)
           \<and> codeforces_avgProblems s = real_of_int (codeforces_totalProblems s) / real (length results)
           \<and> atcoder_avgProblems s = real_of_int (atcoder_totalProblems s) / real (length results)
           \<and> avgProcessingTime s
               = real_of_int (sum_list (map processingTime results)) / real (length results)"
proof -
  from reduce_top_Inr [OF assms] obtain top where top: "reduce_top results = Inr top"
      "top \<in> set results"
      "\<forall>r \<in> set results. total' (leetcode (data' r)) \<le> total' (leetcode (data' top))"
    by blast
  have truthy_iff: "truthy e \<longleftrightarrow> e \<noteq> None \<and> e \<noteq> Some []" for e
    by (cases e) auto
  have count: "length (filter (\<lambda>r. truthy (error r)) results)
      = length (filter (\<lambda>r. error r \<noteq> None) results)"
    if "\<forall>r \<in> set results. error r \<noteq> Some []"
  proof -
    have "filter (\<lambda>r. truthy (error r)) results = filter (\<lambda>r. error r \<noteq> None) results"
      using that by (intro filter_cong) (auto simp: truthy_iff)
    then show ?thesis by simp
  qed
  show ?thesis
    using top count by (auto simp: generateSummary_def Let_def reduce_sum_sum_list)
qed


section \<open>retryRequest with the default number of attempts\<close>

lemma retryRequest_default_attempts:
  "fst (retryRequest fn RETRY_ATTEMPTS w) \<noteq> ReturnedUndefined"
  by (simp add: RETRY_ATTEMPTS_def retryRequest_unroll split: prod.splits sum.splits)

lemma retryRequest_default_Inr:
  "retryRequest_default fn w = (Inr v, w') \<Longrightarrow> \<exists>w0. fn w0 = (Inr v, w')"
  by (auto simp: retryRequest_default_def RETRY_ATTEMPTS_def retryRequest_unroll
      split: prod.splits sum.splits)

lemma retryRequest_default_Inr_cases:
  assumes "retryRequest_default fn w = (Inr v, w')"
  obtains (first) "fn w = (Inr v, w')"
    | (second) e1 w1 where "fn w = (Inl e1, w1)" and "fn (sleep 2000 w1) = (Inr v, w')"
    | (third) e1 w1 e2 w2 where "fn w = (Inl e1, w1)" and "fn (sleep 2000 w1) = (Inl e2, w2)"
        and "fn (sleep 4000 w2) = (Inr v, w')"
proof (cases "fn w")
  case (Pair r1 w1)
  show ?thesis
  proof (cases r1)
    case (Inr v1)
    with Pair assms have "fn w = (Inr v, w')"
      by (simp add: retryRequest_default_def RETRY_ATTEMPTS_def retryRequest_unroll)
    then show ?thesis by (rule first)
  next
    case (Inl e1)
    note one = Pair [unfolded Inl]
    show ?thesis
    proof (cases "fn (sleep 2000 w1)")
      case (Pair r2 w2)
      show ?thesis
      proof (cases r2)
        case (Inr v2)
        with Pair one assms have "fn (sleep 2000 w1) = (Inr v, w')"
          by (simp add: retryRequest_default_def RETRY_ATTEMPTS_def retryRequest_unroll)
        with one show ?thesis by (rule second)
      next
        case (Inl e2)
        note two = Pair [unfolded Inl]
        from assms one two have "fn (sleep 4000 w2) = (Inr v, w')"
          by (auto simp: retryRequest_default_def RETRY_ATTEMPTS_def retryRequest_unroll
              split: prod.splits sum.splits retry_result.splits)
        with one two show ?thesis by (rule third)
      qed
    qed
  qed
qed

text \<open>
  What holds when the adapter starts, and is kept by a failed attempt and by a sleep,
  holds when the attempt that succeeds starts.
\<close>

lemma retryRequest_default_Inr_invariant:
  assumes run: "retryRequest_default fn w = (Inr v, w')"
    and start: "P w"
    and failed: "\<And>x e x'. P x \<Longrightarrow> fn x = (Inl e, x') \<Longrightarrow> P x'"
    and slept: "\<And>x ms. P x \<Longrightarrow> P (sleep ms x)"
  shows "\<exists>w0. P w0 \<and> fn w0 = (Inr v, w')"
  using run
proof (cases rule: retryRequest_default_Inr_cases)
  case first
  with start show ?thesis by blast
next
  case (second e1 w1)
  from failed [OF start second(1)] have "P (sleep 2000 w1)" by (rule slept)
  with second(2) show ?thesis by blast
next
  case (third e1 w1 e2 w2)
  from failed [OF start third(1)] have "P (sleep 2000 w1)" by (rule slept)
  from failed [OF this third(2)] have "P (sleep 4000 w2)" by (rule slept)
  with third(3) show ?thesis by blast
qed

section \<open>Adapters: failures\<close>





























section \<open>Adapters: the cache protocol\<close>

lemma leetcode_fetch_outcome:
  assumes "leetcode_fetch net u w0 = (Inr lc, w')"
  shows "case leetcode_graphql net (length (trace w') - 1) u of
           Inl e \<Rightarrow> False
         | Inr None \<Rightarrow>
             lc = \<lparr>total' = 0, easy = 0, medium = 0, hard = 0\<rparr>
             \<and> leetcode_cache w' = leetcode_cache w0
         | Inr (Some items) \<Rightarrow>
             leetcode_cache w'
               = (leetcode_cache w0)(''leetcode_'' @ u \<mapsto> \<lparr>data = lc, timestamp = clock w'\<rparr>)"
  using assms
  by (auto simp: leetcode_fetch_def axios_def Cache_set_def Let_def split: sum.splits option.splits)

lemma leetcode_fetch_failed:
  "leetcode_fetch net u x = (Inl e, x') \<Longrightarrow> leetcode_cache x' = leetcode_cache x"
  by (auto simp: leetcode_fetch_def axios_def Let_def split: sum.splits option.splits)

lemma codeforces_fetch_outcome:
  assumes "codeforces_fetch net u w0 = (Inr cf, w')"
  shows "case codeforces_user_status net (length (trace w') - 1) u of
           Inl e \<Rightarrow> False
         | Inr body \<Rightarrow>
             if cf_status body \<noteq> ''OK''
             then cf = \<lparr>solved = 0\<rparr> \<and> codeforces_cache w' = codeforces_cache w0
             else codeforces_cache w'
                    = (codeforces_cache w0)(''codeforces_'' @ u \<mapsto> \<lparr>data = cf, timestamp = clock w'\<rparr>)"
  using assms
  by (auto simp: codeforces_fetch_def axios_def Cache_set_def Let_def split: sum.splits if_splits)

lemma codeforces_fetch_failed:
  "codeforces_fetch net u x = (Inl e, x') \<Longrightarrow> codeforces_cache x' = codeforces_cache x"
  by (auto simp: codeforces_fetch_def axios_def Let_def split: sum.splits if_splits)

lemma caches_RateLimiter_wait:
  "leetcode_cache (RateLimiter_wait l w) = leetcode_cache w"
  "github_cache (RateLimiter_wait l w) = github_cache w"
  "codeforces_cache (RateLimiter_wait l w) = codeforces_cache w"
  "atcoder_cache (RateLimiter_wait l w) = atcoder_cache w"
  by (simp_all add: RateLimiter_wait_def sleep_def Let_def split: option.splits)

lemma caches_sleep:
  "leetcode_cache (sleep ms w) = leetcode_cache w"
  "codeforces_cache (sleep ms w) = codeforces_cache w"
  by (simp_all add: sleep_def)

lemma Adapters_leetcode_store_decided:
  assumes "u \<noteq> []" and "Cache_get (clock w) (leetcode_cache w) (''leetcode_'' @ u) = None"
    and "Adapters_leetcode net (Some u) w = (Inr lc, w')"
  shows "case leetcode_graphql net (length (trace w') - 1) u of
           Inl e \<Rightarrow> False
         | Inr None \<Rightarrow>
             lc = \<lparr>total' = 0, easy = 0, medium = 0, hard = 0\<rparr>
             \<and> leetcode_cache w' = leetcode_cache w
         | Inr (Some items) \<Rightarrow>
             leetcode_cache w'
               = (leetcode_cache w)(''leetcode_'' @ u \<mapsto> \<lparr>data = lc, timestamp = clock w'\<rparr>)"
proof -
  from assms have "retryRequest_default (leetcode_fetch net u) (RateLimiter_wait leetcodeLimiter w)
      = (Inr lc, w')"
    by (simp add: Adapters_leetcode_def)
  then have "\<exists>w0. leetcode_cache w0 = leetcode_cache w \<and> leetcode_fetch net u w0 = (Inr lc, w')"
    by (rule retryRequest_default_Inr_invariant)
      (simp_all add: caches_RateLimiter_wait caches_sleep leetcode_fetch_failed)
  then obtain w0 where same: "leetcode_cache w0 = leetcode_cache w"
    and fetch: "leetcode_fetch net u w0 = (Inr lc, w')"
    by blast
  from leetcode_fetch_outcome [OF fetch] show ?thesis
    unfolding same .
qed

lemma Adapters_codeforces_store_decided:
  assumes "u \<noteq> []" and "Cache_get (clock w) (codeforces_cache w) (''codeforces_'' @ u) = None"
    and "Adapters_codeforces net (Some u) w = (Inr cf, w')"
  shows "case codeforces_user_status net (length (trace w') - 1) u of
           Inl e \<Rightarrow> False
         | Inr body \<Rightarrow>
             if cf_status body \<noteq> ''OK''
             then cf = \<lparr>solved = 0\<rparr> \<and> codeforces_cache w' = codeforces_cache w
             else codeforces_cache w'
                    = (codeforces_cache w)(''codeforces_'' @ u \<mapsto> \<lparr>data = cf, timestamp = clock w'\<rparr>)"
proof -
  from assms have "retryRequest_default (codeforces_fetch net u) (RateLimiter_wait codeforcesLimiter w)
      = (Inr cf, w')"
    by (simp add: Adapters_codeforces_def)
  then have "\<exists>w0. codeforces_cache w0 = codeforces_cache w \<and> codeforces_fetch net u w0 = (Inr cf, w')"
    by (rule retryRequest_default_Inr_invariant)
      (simp_all add: caches_RateLimiter_wait caches_sleep codeforces_fetch_failed)
  then obtain w0 where same: "codeforces_cache w0 = codeforces_cache w"
    and fetch: "codeforces_fetch net u w0 = (Inr cf, w')"
    by blast
  from codeforces_fetch_outcome [OF fetch] show ?thesis
    unfolding same .
qed

lemma github_fetch_stores:
  "github_fetch net u w0 = (Inr v, w') \<Longrightarrow>
     github_cache w' (''github_'' @ u) = Some \<lparr>data = v, timestamp = clock w'\<rparr>"
  by (auto simp: github_fetch_def axios_def Cache_set_def Let_def
      split: prod.splits sum.splits option.splits)

lemma atcoder_fetch_stores:
  "atcoder_fetch net u w0 = (Inr v, w') \<Longrightarrow>
     atcoder_cache w' (''atcoder_'' @ u) = Some \<lparr>data = v, timestamp = clock w'\<rparr>"
  by (auto simp: atcoder_fetch_def axios_def Cache_set_def Let_def
      split: prod.splits sum.splits option.splits)

lemma Adapters_github_stores:
  assumes "u \<noteq> []" and "Cache_get (clock w) (github_cache w) (''github_'' @ u) = None"
    and "Adapters_github net (Some u) w = (Inr v, w')"
  shows "github_cache w' (''github_'' @ u) = Some \<lparr>data = v, timestamp = clock w'\<rparr>"
proof -
  from assms have "retryRequest_default (github_fetch net u) (RateLimiter_wait githubUserLimiter w)
      = (Inr v, w')"
    by (simp add: Adapters_github_def)
  from retryRequest_default_Inr [OF this] obtain w0 where "github_fetch net u w0 = (Inr v, w')" ..
  then show ?thesis by (rule github_fetch_stores)
qed

lemma Adapters_atcoder_stores:
  assumes "u \<noteq> []" and "Cache_get (clock w) (atcoder_cache w) (''atcoder_'' @ u) = None"
    and "Adapters_atcoder net (Some u) w = (Inr v, w')"
  shows "atcoder_cache w' (''atcoder_'' @ u) = Some \<lparr>data = v, timestamp = clock w'\<rparr>"
proof -
  from assms have "retryRequest_default (atcoder_fetch net u) (RateLimiter_wait rateLimiter w)
      = (Inr v, w')"
    by (simp add: Adapters_atcoder_def)
  from retryRequest_default_Inr [OF this] obtain w0 where "atcoder_fetch net u w0 = (Inr v, w')" ..
  then show ?thesis by (rule atcoder_fetch_stores)
qed

lemma starts_with_replicate: "c \<noteq> x \<Longrightarrow> \<not> starts_with (replicate n c) (x # xs)"
  by (cases n) simp_all

lemma string_includes_replicate: "c \<noteq> x \<Longrightarrow> \<not> string_includes (replicate n c) (x # xs)"
  by (induction n) (simp_all add: starts_with_replicate [of c x "Suc _" xs, simplified])

lemma valid_profile_page_passes: "\<not> invalid_page valid_profile_page"
  by (simp add: valid_profile_page_def invalid_page_def string_includes_replicate)

lemma Adapters_leetcode_hit:
  "(u \<noteq> [] \<and> Cache_get (clock w) (leetcode_cache w) (''leetcode_'' @ u) = Some lc
      \<longrightarrow> Adapters_leetcode net (Some u) w = (Inr lc, w))"
  by (simp add: Adapters_leetcode_def)

lemma Adapters_github_hit:
  "(u \<noteq> [] \<and> Cache_get (clock w) (github_cache w) (''github_'' @ u) = Some gh
      \<longrightarrow> Adapters_github net (Some u) w = (Inr gh, w))"
  by (simp add: Adapters_github_def)

lemma Adapters_codeforces_hit:
  "(u \<noteq> [] \<and> Cache_get (clock w) (codeforces_cache w) (''codeforces_'' @ u) = Some cf
      \<longrightarrow> Adapters_codeforces net (Some u) w = (Inr cf, w))"
  by (simp add: Adapters_codeforces_def)

lemma Adapters_atcoder_hit:
  "(u \<noteq> [] \<and> Cache_get (clock w) (atcoder_cache w) (''atcoder_'' @ u) = Some ac
      \<longrightarrow> Adapters_atcoder net (Some u) w = (Inr ac, w))"
  by (simp add: Adapters_atcoder_def)

lemma Adapters_leetcode_store:
  "(u \<noteq> [] \<and> Cache_get (clock w) (leetcode_cache w) (''leetcode_'' @ u) = None
      \<and> Adapters_leetcode net (Some u) w = (Inr lc, w')
      \<longrightarrow> (case leetcode_graphql net (length (trace w') - 1) u of
             Inl e \<Rightarrow> False
           | Inr None \<Rightarrow>
               lc = \<lparr>total' = 0, easy = 0, medium = 0, hard = 0\<rparr>
               \<and> leetcode_cache w' = leetcode_cache w
           | Inr (Some items) \<Rightarrow>
               leetcode_cache w'
                 = (leetcode_cache w)(''leetcode_'' @ u \<mapsto> \<lparr>data = lc, timestamp = clock w'\<rparr>)))"
  using Adapters_leetcode_store_decided [of u w net lc w'] by blast

lemma Adapters_github_store:
  "(u \<noteq> [] \<and> Cache_get (clock w) (github_cache w) (''github_'' @ u) = None
      \<and> Adapters_github net (Some u) w = (Inr gh, w')
      \<longrightarrow> github_cache w' (''github_'' @ u) = Some \<lparr>data = gh, timestamp = clock w'\<rparr>)"
  using Adapters_github_stores [of u w net gh w'] by blast

lemma Adapters_codeforces_store:
  "(u \<noteq> [] \<and> Cache_get (clock w) (codeforces_cache w) (''codeforces_'' @ u) = None
      \<and> Adapters_codeforces net (Some u) w = (Inr cf, w')
      \<longrightarrow> (case codeforces_user_status net (length (trace w') - 1) u of
             Inl e \<Rightarrow> False
           | Inr body \<Rightarrow>
               if cf_status body \<noteq> ''OK''
               then cf = \<lparr>solved = 0\<rparr> \<and> codeforces_cache w' = codeforces_cache w
               else codeforces_cache w'
                      = (codeforces_cache w)
                          (''codeforces_'' @ u \<mapsto> \<lparr>data = cf, timestamp = clock w'\<rparr>)))"
  using Adapters_codeforces_store_decided [of u w net cf w'] by blast

lemma Adapters_atcoder_store:
  "(u \<noteq> [] \<and> Cache_get (clock w) (atcoder_cache w) (''atcoder_'' @ u) = None
      \<and> Adapters_atcoder net (Some u) w = (Inr ac, w')
      \<longrightarrow> atcoder_cache w' (''atcoder_'' @ u) = Some \<lparr>data = ac, timestamp = clock w'\<rparr>)"
  using Adapters_atcoder_stores [of u w net ac w'] by blast

lemma Adapters_leetcode_found:
  "(u \<noteq> [] \<and> Cache_get (clock w) (leetcode_cache w) (''leetcode_'' @ u) = None
      \<and> leetcode_graphql net (length (trace (RateLimiter_wait leetcodeLimiter w))) u = Inr (Some items)
      \<longrightarrow> fst (Adapters_leetcode net (Some u) w)
            = Inr \<lparr>total' = count_of ''All'' items, easy = count_of ''Easy'' items,
                  medium = count_of ''Medium'' items, hard = count_of ''Hard'' items\<rparr>
          \<and> leetcode_cache (snd (Adapters_leetcode net (Some u) w)) (''leetcode_'' @ u)
            = Some \<lparr>data = \<lparr>total' = count_of ''All'' items, easy = count_of ''Easy'' items,
                            medium = count_of ''Medium'' items, hard = count_of ''Hard'' items\<rparr>,
                    timestamp = clock (snd (Adapters_leetcode net (Some u) w))\<rparr>)"
  by (simp add: Adapters_leetcode_def retryRequest_default_def RETRY_ATTEMPTS_def retryRequest_unroll
      leetcode_fetch_def axios_def Cache_set_def Let_def)

lemma Adapters_leetcode_not_found:
  "(u \<noteq> [] \<and> Cache_get (clock w) (leetcode_cache w) (''leetcode_'' @ u) = None
      \<and> leetcode_graphql net (length (trace (RateLimiter_wait leetcodeLimiter w))) u = Inr None
      \<longrightarrow> fst (Adapters_leetcode net (Some u) w) = Inr \<lparr>total' = 0, easy = 0, medium = 0, hard = 0\<rparr>
          \<and> leetcode_cache (snd (Adapters_leetcode net (Some u) w)) = leetcode_cache w)"
  by (simp add: Adapters_leetcode_def retryRequest_default_def RETRY_ATTEMPTS_def retryRequest_unroll
      leetcode_fetch_def axios_def caches_RateLimiter_wait)

lemma Adapters_codeforces_found:
  "(u \<noteq> [] \<and> Cache_get (clock w) (codeforces_cache w) (''codeforces_'' @ u) = None
      \<and> codeforces_user_status net (length (trace (RateLimiter_wait codeforcesLimiter w))) u = Inr body
      \<and> cf_status body = ''OK''
      \<longrightarrow> (\<exists>cf. fst (Adapters_codeforces net (Some u) w) = Inr cf
             \<and> codeforces_cache (snd (Adapters_codeforces net (Some u) w)) (''codeforces_'' @ u)
               = Some \<lparr>data = cf,
                       timestamp = clock (snd (Adapters_codeforces net (Some u) w))\<rparr>))"
  by (simp add: Adapters_codeforces_def retryRequest_default_def RETRY_ATTEMPTS_def
      retryRequest_unroll codeforces_fetch_def axios_def Cache_set_def Let_def)

lemma Adapters_codeforces_not_found:
  "(u \<noteq> [] \<and> Cache_get (clock w) (codeforces_cache w) (''codeforces_'' @ u) = None
      \<and> codeforces_user_status net (length (trace (RateLimiter_wait codeforcesLimiter w))) u = Inr body
      \<and> cf_status body \<noteq> ''OK''
      \<longrightarrow> fst (Adapters_codeforces net (Some u) w) = Inr \<lparr>solved = 0\<rparr>
          \<and> codeforces_cache (snd (Adapters_codeforces net (Some u) w)) = codeforces_cache w)"
  by (simp add: Adapters_codeforces_def retryRequest_default_def RETRY_ATTEMPTS_def
      retryRequest_unroll codeforces_fetch_def axios_def caches_RateLimiter_wait)

lemma Adapters_skillrack_caches:
  "(leetcode_cache (snd (Adapters_skillrack net h w)) = leetcode_cache w
      \<and> github_cache (snd (Adapters_skillrack net h w)) = github_cache w
      \<and> codeforces_cache (snd (Adapters_skillrack net h w)) = codeforces_cache w
      \<and> atcoder_cache (snd (Adapters_skillrack net h w)) = atcoder_cache w)"
  by (auto simp: Adapters_skillrack_def scrapeSkillRack_def world_defs
      split: option.splits skillrack_handle.splits prod.splits sum.splits)

lemma Adapters_skillrack_requests:
  "(un \<noteq> [] \<and> i \<noteq> [] \<and> k \<noteq> [] \<longrightarrow>
        trace (snd (Adapters_skillrack net (Some (SkillrackObject (Some un) (Some i) (Some k))) w))
          = trace (RateLimiter_wait skillrackLimiter w)
            @ [Request (SkillrackResume
                 (''https://www.skillrack.com/faces/resume.xhtml?id='' @ i @ ''&key='' @ k))])"
  by (auto simp: Adapters_skillrack_def scrapeSkillRack_def axios_def Let_def
      split: prod.splits sum.splits)

text \<open>
  C4 (as amended). The leetcode, github, codeforces and atcoder adapters follow the
  cache protocol. A hit under the key of platform and handle (an item younger than 24
  hours) is returned at once, with no wait, no request and no other change of the
  world. After a miss, when the adapter returns metrics, the answer to its last
  request decides: if it held data (submission counts for LeetCode, a status \<open>OK\<close>
  for Codeforces, any answer for GitHub and AtCoder), the metrics are in the cache
  under that key with the time of the store, also when they are all zero, so that a
  later call within 24 hours of that time is such a hit; if it held none (no matched
  LeetCode user, a Codeforces status other than \<open>OK\<close>), the zero-valued metrics are
  returned and the cache is left as it was. The skillrack adapter takes no part in the
  protocol: it writes to no cache table and requests the profile page on every call
  that has an identity with username, id and key.
\<close>

theorem Adapters_cache_protocol:
  "(u \<noteq> [] \<and> Cache_get (clock w) (leetcode_cache w) (''leetcode_'' @ u) = Some lc
      \<longrightarrow> Adapters_leetcode net (Some u) w = (Inr lc, w))
   \<and> (u \<noteq> [] \<and> Cache_get (clock w) (github_cache w) (''github_'' @ u) = Some gh
      \<longrightarrow> Adapters_github net (Some u) w = (Inr gh, w))
   \<and> (u \<noteq> [] \<and> Cache_get (clock w) (codeforces_cache w) (''codeforces_'' @ u) = Some cf
      \<longrightarrow> Adapters_codeforces net (Some u) w = (Inr cf, w))
   \<and> (u \<noteq> [] \<and> Cache_get (clock w) (atcoder_cache w) (''atcoder_'' @ u) = Some ac
      \<longrightarrow> Adapters_atcoder net (Some u) w = (Inr ac, w))
   \<and> (u \<noteq> [] \<and> Cache_get (clock w) (leetcode_cache w) (''leetcode_'' @ u) = None
      \<and> Adapters_leetcode net (Some u) w = (Inr lc, w')
      \<longrightarrow> (case leetcode_graphql net (length (trace w') - 1) u of
             Inl e \<Rightarrow> False
           | Inr None \<Rightarrow>
               lc = \<lparr>total' = 0, easy = 0, medium = 0, hard = 0\<rparr>
               \<and> leetcode_cache w' = leetcode_cache w
           | Inr (Some items) \<Rightarrow>
               leetcode_cache w'
                 = (leetcode_cache w)(''leetcode_'' @ u \<mapsto> \<lparr>data = lc, timestamp = clock w'\<rparr>)))
   \<and> (u \<noteq> [] \<and> Cache_get (clock w) (github_cache w) (''github_'' @ u) = None
      \<and> Adapters_github net (Some u) w = (Inr gh, w')
      \<longrightarrow> github_cache w' (''github_'' @ u) = Some \<lparr>data = gh, timestamp = clock w'\<rparr>)
   \<and> (u \<noteq> [] \<and> Cache_get (clock w) (codeforces_cache w) (''codeforces_'' @ u) = None
      \<and> Adapters_codeforces net (Some u) w = (Inr cf, w')
      \<longrightarrow> (case codeforces_user_status net (length (trace w') - 1) u of
             Inl e \<Rightarrow> False
           | Inr body \<Rightarrow>
               if cf_status body \<noteq> ''OK''
               then cf = \<lparr>solved = 0\<rparr> \<and> codeforces_cache w' = codeforces_cache w
               else codeforces_cache w'
                      = (codeforces_cache w)
                          (''codeforces_'' @ u \<mapsto> \<lparr>data = cf, timestamp = clock w'\<rparr>)))
   \<and> (u \<noteq> [] \<and> Cache_get (clock w) (atcoder_cache w) (''atcoder_'' @ u) = None
      \<and> Adapters_atcoder net (Some u) w = (Inr ac, w')
      \<longrightarrow> atcoder_cache w' (''atcoder_'' @ u) = Some \<lparr>data = ac, timestamp = clock w'\<rparr>)
   \<and> (u \<noteq> [] \<and> Cache_get (clock w) (leetcode_cache w) (''leetcode_'' @ u) = None
      \<and> leetcode_graphql net (length (trace (RateLimiter_wait leetcodeLimiter w))) u = Inr (Some items)
      \<longrightarrow> fst (Adapters_leetcode net (Some u) w)
            = Inr \<lparr>total' = count_of ''All'' items, easy = count_of ''Easy'' items,
                  medium = count_of ''Medium'' items, hard = count_of ''Hard'' items\<rparr>
          \<and> leetcode_cache (snd (Adapters_leetcode net (Some u) w)) (''leetcode_'' @ u)
            = Some \<lparr>data = \<lparr>total' = count_of ''All'' items, easy = count_of ''Easy'' items,
                            medium = count_of ''Medium'' items, hard = count_of ''Hard'' items\<rparr>,
                    timestamp = clock (snd (Adapters_leetcode net (Some u) w))\<rparr>)
   \<and> (u \<noteq> [] \<and> Cache_get (clock w) (leetcode_cache w) (''leetcode_'' @ u) = None
      \<and> leetcode_graphql net (length (trace (RateLimiter_wait leetcodeLimiter w))) u = Inr None
      \<longrightarrow> fst (Adapters_leetcode net (Some u) w) = Inr \<lparr>total' = 0, easy = 0, medium = 0, hard = 0\<rparr>
          \<and> leetcode_cache (snd (Adapters_leetcode net (Some u) w)) = leetcode_cache w)
   \<and> (u \<noteq> [] \<and> Cache_get (clock w) (codeforces_cache w) (''codeforces_'' @ u) = None
      \<and> codeforces_user_status net (length (trace (RateLimiter_wait codeforcesLimiter w))) u = Inr body
      \<and> cf_status body = ''OK''
      \<longrightarrow> (\<exists>cf. fst (Adapters_codeforces net (Some u) w) = Inr cf
             \<and> codeforces_cache (snd (Adapters_codeforces net (Some u) w)) (''codeforces_'' @ u)
               = Some \<lparr>data = cf,
                       timestamp = clock (snd (Adapters_codeforces net (Some u) w))\<rparr>))
   \<and> (u \<noteq> [] \<and> Cache_get (clock w) (codeforces_cache w) (''codeforces_'' @ u) = None
      \<and> codeforces_user_status net (length (trace (RateLimiter_wait codeforcesLimiter w))) u = Inr body
      \<and> cf_status body \<noteq> ''OK''
      \<longrightarrow> fst (Adapters_codeforces net (Some u) w) = Inr \<lparr>solved = 0\<rparr>
          \<and> codeforces_cache (snd (Adapters_codeforces net (Some u) w)) = codeforces_cache w)
   \<and> (leetcode_cache (snd (Adapters_skillrack net h w)) = leetcode_cache w
      \<and> github_cache (snd (Adapters_skillrack net h w)) = github_cache w
      \<and> codeforces_cache (snd (Adapters_skillrack net h w)) = codeforces_cache w
      \<and> atcoder_cache (snd (Adapters_skillrack net h w)) = atcoder_cache w)
   \<and> (un \<noteq> [] \<and> i \<noteq> [] \<and> k \<noteq> [] \<longrightarrow>
        trace (snd (Adapters_skillrack net (Some (SkillrackObject (Some un) (Some i) (Some k))) w))
          = trace (RateLimiter_wait skillrackLimiter w)
            @ [Request (SkillrackResume
                 (''https://www.skillrack.com/faces/resume.xhtml?id='' @ i @ ''&key='' @ k))])"
  by (intro conjI
        Adapters_leetcode_hit Adapters_github_hit Adapters_codeforces_hit Adapters_atcoder_hit
        Adapters_leetcode_store Adapters_github_store Adapters_codeforces_store
        Adapters_atcoder_store Adapters_leetcode_found Adapters_leetcode_not_found
        Adapters_codeforces_found Adapters_codeforces_not_found Adapters_skillrack_caches
        Adapters_skillrack_requests)

text \<open>
  The LeetCode handle of the first student. In the \<open>online\<close> surroundings it is
  fetched and fetched again an hour later: the second call returns the stored counts
  and leaves the world, and with it the trace of requests, as it was. In \<open>newcomer\<close>
  the counts found are all zero and are stored. In \<open>no_such_user\<close> the zero-valued
  metrics are returned, nothing is stored, and a second call sends the request again.
\<close>

theorem Adapters_cache_protocol_witness:
  "fst (Adapters_leetcode online (Some ''alice'') (fresh_world 1700000000000))
     = Inr \<lparr>total' = 120, easy = 80, medium = 30, hard = 10\<rparr>
   \<and> Adapters_leetcode online (Some ''alice'')
       ((snd (Adapters_leetcode online (Some ''alice'') (fresh_world 1700000000000)))
          \<lparr>clock := 1700003600000\<rparr>)
     = (Inr \<lparr>total' = 120, easy = 80, medium = 30, hard = 10\<rparr>,
        (snd (Adapters_leetcode online (Some ''alice'') (fresh_world 1700000000000)))
          \<lparr>clock := 1700003600000\<rparr>)
   \<and> leetcode_cache (snd (Adapters_leetcode newcomer (Some ''alice'') (fresh_world 1700000000000)))
       ''leetcode_alice''
     = Some \<lparr>data = \<lparr>total' = 0, easy = 0, medium = 0, hard = 0\<rparr>, timestamp = 1700000000000\<rparr>
   \<and> fst (Adapters_leetcode no_such_user (Some ''alice'') (fresh_world 1700000000000))
     = Inr \<lparr>total' = 0, easy = 0, medium = 0, hard = 0\<rparr>
   \<and> leetcode_cache (snd (Adapters_leetcode no_such_user (Some ''alice'') (fresh_world 1700000000000)))
       ''leetcode_alice''
     = None
   \<and> trace (snd (Adapters_leetcode no_such_user (Some ''alice'')
                   (snd (Adapters_leetcode no_such_user (Some ''alice'')
                          (fresh_world 1700000000000)))))
     = [Request (LeetcodeGraphql ''alice''), Timer 500, Request (LeetcodeGraphql ''alice'')]"
proof -
  let ?w0 = "fresh_world 1700000000000"
  let ?v = "\<lparr>total' = 120, easy = 80, medium = 30, hard = 10\<rparr>"
  let ?z = "\<lparr>total' = 0, easy = 0, medium = 0, hard = 0\<rparr>"
  let ?items = "[(''All'', 120), (''Easy'', 80), (''Medium'', 30), (''Hard'', 10)]"
  let ?zeros = "[(''All'', 0), (''Easy'', 0), (''Medium'', 0), (''Hard'', 0)]"
  note found = Adapters_cache_protocol
    [where net = online and w = ?w0 and u = "''alice''" and items = ?items,
      THEN conjunct2, THEN conjunct2, THEN conjunct2, THEN conjunct2, THEN conjunct2,
      THEN conjunct2, THEN conjunct2, THEN conjunct2, THEN conjunct1, THEN mp]
  note found_zero = Adapters_cache_protocol
    [where net = newcomer and w = ?w0 and u = "''alice''" and items = ?zeros,
      THEN conjunct2, THEN conjunct2, THEN conjunct2, THEN conjunct2, THEN conjunct2,
      THEN conjunct2, THEN conjunct2, THEN conjunct2, THEN conjunct1, THEN mp]
  note not_found = Adapters_cache_protocol
    [where net = no_such_user and w = ?w0 and u = "''alice''",
      THEN conjunct2, THEN conjunct2, THEN conjunct2, THEN conjunct2, THEN conjunct2,
      THEN conjunct2, THEN conjunct2, THEN conjunct2, THEN conjunct2, THEN conjunct1, THEN mp]
  define w1 where "w1 = snd (Adapters_leetcode online (Some ''alice'') ?w0)"
  have time: "clock w1 = 1700000000000"
    unfolding w1_def
    by (simp add: Adapters_leetcode_def leetcode_fetch_def count_of_def world_defs online_def
        retryRequest_default_def RETRY_ATTEMPTS_def retryRequest_unroll)
  have "fst (Adapters_leetcode online (Some ''alice'') ?w0)
        = Inr \<lparr>total' = count_of ''All'' ?items, easy = count_of ''Easy'' ?items,
                medium = count_of ''Medium'' ?items, hard = count_of ''Hard'' ?items\<rparr>
      \<and> leetcode_cache (snd (Adapters_leetcode online (Some ''alice'') ?w0)) (''leetcode_'' @ ''alice'')
        = Some \<lparr>data = \<lparr>total' = count_of ''All'' ?items, easy = count_of ''Easy'' ?items,
                          medium = count_of ''Medium'' ?items, hard = count_of ''Hard'' ?items\<rparr>,
                timestamp = clock (snd (Adapters_leetcode online (Some ''alice'') ?w0))\<rparr>"
    by (rule found) (simp add: online_def world_defs)
  then have first: "fst (Adapters_leetcode online (Some ''alice'') ?w0) = Inr ?v"
    and stored: "leetcode_cache w1 ''leetcode_alice'' = Some \<lparr>data = ?v, timestamp = 1700000000000\<rparr>"
    using time by (simp_all add: count_of_def w1_def)
  let ?w2 = "w1\<lparr>clock := 1700003600000\<rparr>"
  have hit: "''alice'' \<noteq> [] \<and> Cache_get (clock ?w2) (leetcode_cache ?w2) (''leetcode_'' @ ''alice'') = Some ?v"
    using stored by (simp add: Cache_get_def CACHE_DURATION_def)
  note short = Adapters_cache_protocol [where net = online and w = ?w2 and u = "''alice''" and lc = ?v,
      THEN conjunct1, THEN mp]
  have second: "Adapters_leetcode online (Some ''alice'') ?w2 = (Inr ?v, ?w2)"
    using hit by (rule short)
  have "fst (Adapters_leetcode newcomer (Some ''alice'') ?w0)
        = Inr \<lparr>total' = count_of ''All'' ?zeros, easy = count_of ''Easy'' ?zeros,
                medium = count_of ''Medium'' ?zeros, hard = count_of ''Hard'' ?zeros\<rparr>
      \<and> leetcode_cache (snd (Adapters_leetcode newcomer (Some ''alice'') ?w0)) (''leetcode_'' @ ''alice'')
        = Some \<lparr>data = \<lparr>total' = count_of ''All'' ?zeros, easy = count_of ''Easy'' ?zeros,
                          medium = count_of ''Medium'' ?zeros, hard = count_of ''Hard'' ?zeros\<rparr>,
                timestamp = clock (snd (Adapters_leetcode newcomer (Some ''alice'') ?w0))\<rparr>"
    by (rule found_zero) (simp add: newcomer_def online_def world_defs)
  moreover have "clock (snd (Adapters_leetcode newcomer (Some ''alice'') ?w0)) = 1700000000000"
    by (simp add: Adapters_leetcode_def leetcode_fetch_def count_of_def world_defs newcomer_def
        online_def retryRequest_default_def RETRY_ATTEMPTS_def retryRequest_unroll)
  ultimately have zero_stored:
    "leetcode_cache (snd (Adapters_leetcode newcomer (Some ''alice'') ?w0)) ''leetcode_alice''
      = Some \<lparr>data = ?z, timestamp = 1700000000000\<rparr>"
    by (simp add: count_of_def)
  have "fst (Adapters_leetcode no_such_user (Some ''alice'') ?w0) = Inr ?z
      \<and> leetcode_cache (snd (Adapters_leetcode no_such_user (Some ''alice'') ?w0)) = leetcode_cache ?w0"
    by (rule not_found) (simp add: no_such_user_def online_def world_defs)
  then have zero: "fst (Adapters_leetcode no_such_user (Some ''alice'') ?w0) = Inr ?z"
    and untouched: "leetcode_cache (snd (Adapters_leetcode no_such_user (Some ''alice'') ?w0))
        ''leetcode_alice'' = None"
    by (simp_all add: fresh_world_def)
  have again: "trace (snd (Adapters_leetcode no_such_user (Some ''alice'')
        (snd (Adapters_leetcode no_such_user (Some ''alice'') ?w0))))
      = [Request (LeetcodeGraphql ''alice''), Timer 500, Request (LeetcodeGraphql ''alice'')]"
    by (simp add: Adapters_leetcode_def leetcode_fetch_def world_defs no_such_user_def online_def
        retryRequest_default_def RETRY_ATTEMPTS_def retryRequest_unroll)
  from first second zero_stored zero untouched again show ?thesis
    by (simp add: w1_def)
qed

text \<open>
  The SkillRack handle of the second student, fetched in the \<open>online\<close> surroundings
  and fetched again at once: the first call gets the page and returns the metrics read
  off it, and the second call requests the page anew, after the wait the limiter
  imposes.
\<close>

theorem Adapters_skillrack_no_cache_counterexample:
  "fst (Adapters_skillrack online
          (Some (SkillrackObject (Some ''bob'') (Some ''484170'') (Some ''abc123'')))
          (fresh_world 1700000000000))
     = Inr \<lparr>solved = 0, userInfo = Some \<lparr>profile_name = ''bob'', profileFound = False\<rparr>\<rparr>
   \<and> trace (snd (Adapters_skillrack online
                   (Some (SkillrackObject (Some ''bob'') (Some ''484170'') (Some ''abc123'')))
                   (snd (Adapters_skillrack online
                          (Some (SkillrackObject (Some ''bob'') (Some ''484170'') (Some ''abc123'')))
                          (fresh_world 1700000000000)))))
     = [Request (SkillrackResume ''https://www.skillrack.com/faces/resume.xhtml?id=484170&key=abc123''),
        Timer 800,
        Request (SkillrackResume ''https://www.skillrack.com/faces/resume.xhtml?id=484170&key=abc123'')]"
  by (simp add: Adapters_skillrack_def scrapeSkillRack_def world_defs online_def
      valid_profile_page_passes)

end
